theory Spec2Isabelle
  imports Main "HOL-Library.Char_ord" "HOL-Library.List_Lexorder" "HOL-Library.Multiset"
begin

section \<open>The secure saved-objects client\<close>

text \<open>
  A shallow embedding of \<^verbatim>\<open>SecureSavedObjectsClient\<close>
  (\<^verbatim>\<open>secure_saved_objects_client.js\<close>). The client wraps two repositories, a
  privilege checker, an audit logger, an action registry and an error factory, all
  injected through the constructor. Every public method goes through \<^verbatim>\<open>_execute\<close>.
  The calls made to the injected collaborators are recorded, in order, in a trace.
\<close>

subsection \<open>JavaScript values\<close>

text \<open>
  The values the client only passes around or inspects by property name: \<^verbatim>\<open>undefined\<close>,
  \<^verbatim>\<open>null\<close>, strings, plain objects (an association list of properties) and \<^verbatim>\<open>Error\<close>
  instances created with \<^verbatim>\<open>new Error(msg)\<close>. \<open>JTypeError\<close> is the \<^verbatim>\<open>TypeError\<close> the
  runtime throws when a non-iterable is spread or \<^verbatim>\<open>null\<close> is destructured.
\<close>

datatype jsval =
    JUndefined
  | JNull
  | JStr string
  | JObj "(string \<times> jsval) list"
  | JError string
  | JTypeError string

text \<open>\<^verbatim>\<open>v == null\<close>\<close>

fun is_nullish :: "jsval \<Rightarrow> bool" where
  "is_nullish JUndefined = True"
| "is_nullish JNull = True"
| "is_nullish v = False"

text \<open>
  Property read \<^verbatim>\<open>v[k]\<close> for the keys the client uses (never an index, \<^verbatim>\<open>length\<close> or
  a property of a prototype). A read from \<^verbatim>\<open>undefined\<close> or \<^verbatim>\<open>null\<close> throws in
  JavaScript; every read below is guarded by \<open>is_nullish\<close>.
\<close>

fun get_prop :: "jsval \<Rightarrow> string \<Rightarrow> jsval" where
  "get_prop (JObj kvs) k = (case map_of kvs k of Some v \<Rightarrow> v | None \<Rightarrow> JUndefined)"
| "get_prop (JError m) k = (if k = ''message'' then JStr m else JUndefined)"
| "get_prop (JTypeError m) k = (if k = ''message'' then JStr m else JUndefined)"
| "get_prop _ k = JUndefined"

text \<open>\<^verbatim>\<open>k in Object(v)\<close>, for the same keys.\<close>

fun has_prop :: "jsval \<Rightarrow> string \<Rightarrow> bool" where
  "has_prop (JObj kvs) k = (map_of kvs k \<noteq> None)"
| "has_prop (JError m) k = (k = ''message'')"
| "has_prop (JTypeError m) k = (k = ''message'')"
| "has_prop v k = False"

text \<open>
  lodash \<^verbatim>\<open>get(object, path, defaultValue)\<close> for a path given as a string of names
  separated by dots. \<^verbatim>\<open>castPath\<close> takes the whole string as one key when it has no dot
  or when the object has a property of that very name, and splits it at the dots
  otherwise. \<^verbatim>\<open>baseGet\<close> walks the keys and stops at \<^verbatim>\<open>undefined\<close> or \<^verbatim>\<open>null\<close>. The
  default replaces only \<^verbatim>\<open>undefined\<close>.
\<close>

fun split_on :: "char \<Rightarrow> string \<Rightarrow> string list" where
  "split_on d [] = [[]]"
| "split_on d (x # xs) =
     (if x = d then [] # split_on d xs
      else (case split_on d xs of [] \<Rightarrow> [[x]] | w # ws \<Rightarrow> (x # w) # ws))"

definition castPath :: "string \<Rightarrow> jsval \<Rightarrow> string list" where
  "castPath path object =
     (if CHR ''.'' \<notin> set path \<or> has_prop object path then [path]
      else split_on CHR ''.'' path)"

fun baseGet :: "jsval \<Rightarrow> string list \<Rightarrow> jsval" where
  "baseGet object [] = object"
| "baseGet object (k # ks) =
     (if is_nullish object then JUndefined else baseGet (get_prop object k) ks)"

definition lodash_get :: "jsval \<Rightarrow> string \<Rightarrow> jsval \<Rightarrow> jsval" where
  "lodash_get object path defaultValue =
     (let result = (if is_nullish object then JUndefined
                    else baseGet object (castPath path object))
      in if result = JUndefined then defaultValue else result)"

text \<open>
  The destructuring \<^verbatim>\<open>const { reason } = v\<close>: a \<^verbatim>\<open>TypeError\<close> where \<^verbatim>\<open>v\<close> is
  \<^verbatim>\<open>undefined\<close> or \<^verbatim>\<open>null\<close>, the property \<^verbatim>\<open>reason\<close> otherwise.
\<close>

definition destructure_reason :: "jsval \<Rightarrow> jsval + jsval" where
  "destructure_reason v =
     (if is_nullish v then Inl (JTypeError ''Cannot destructure property reason'')
      else Inr (get_prop v ''reason''))"

text \<open>
  A default parameter \<^verbatim>\<open>p = {}\<close>: the empty object where the argument is omitted or
  \<^verbatim>\<open>undefined\<close>.
\<close>

definition default_obj :: "jsval \<Rightarrow> jsval" where
  "default_obj v = (if v = JUndefined then JObj [] else v)"

subsection \<open>Types, actions and arrays of them\<close>

text \<open>
  A saved-object type is a string, or \<^verbatim>\<open>undefined\<close> where it is absent (\<open>None\<close>). The
  first argument of \<^verbatim>\<open>_execute\<close> is one type or an array of types.
\<close>

type_synonym tyval = "string option"

datatype type_arg = One tyval | Many "tyval list"

type_synonym action = string

text \<open>
  lodash \<^verbatim>\<open>uniq(array)\<close>: walks the array from the left and keeps a value when it is not
  yet in the result, so only the first occurrence of each value stays.
\<close>

definition uniq :: "'a list \<Rightarrow> 'a list" where
  "uniq array = foldl (\<lambda>result v. if v \<in> set result then result else result @ [v]) [] array"

text \<open>
  \<^verbatim>\<open>Array.prototype.sort()\<close> without a comparator: the defined elements in ascending
  order of their strings, all \<^verbatim>\<open>undefined\<close> elements after them.
\<close>

definition array_sort :: "tyval list \<Rightarrow> tyval list" where
  "array_sort xs =
     map Some (sort (map the (filter (\<lambda>x. x \<noteq> None) xs))) @ filter (\<lambda>x. x = None) xs"

text \<open>\<^verbatim>\<open>Array.prototype.join(sep)\<close>: an \<^verbatim>\<open>undefined\<close> element renders as the empty string.\<close>

fun array_join :: "string \<Rightarrow> tyval list \<Rightarrow> string" where
  "array_join sep [] = []"
| "array_join sep [x] = (case x of None \<Rightarrow> [] | Some s \<Rightarrow> s)"
| "array_join sep (x # y # ys) =
     (case x of None \<Rightarrow> [] | Some s \<Rightarrow> s) @ sep @ array_join sep (y # ys)"

subsection \<open>Collaborators\<close>

text \<open>
  Modelled from the spec: \<^verbatim>\<open>CHECK_PRIVILEGES_RESULT\<close> is imported from
  \<^verbatim>\<open>../authorization/check_privileges\<close>, which is not among the sources. Its three
  members are pairwise different values; \<open>OTHER\<close> stands for any value that is none of them.
\<close>

datatype check_result = AUTHORIZED | LEGACY | UNAUTHORIZED | OTHER string

text \<open>What the privilege checker resolves to; \<^verbatim>\<open>missing\<close> may be absent.\<close>

record check_response =
  result :: check_result
  username :: string
  missing :: "action list option"

text \<open>The objects of a bulk call: their \<^verbatim>\<open>type\<close> property and the rest.\<close>

datatype sobj = SObj (obj_type: tyval) (obj_rest: jsval)

text \<open>The options of \<^verbatim>\<open>find\<close>: their \<^verbatim>\<open>type\<close> property and the rest.\<close>

datatype find_options = FindOptions (fo_type: type_arg) (fo_rest: jsval)

text \<open>
  The closure \<^verbatim>\<open>repository => repository.m(...)\<close> handed to \<^verbatim>\<open>_execute\<close>, as the method
  it calls with its arguments.
\<close>

datatype method_call =
    CallCreate type_arg jsval jsval
  | CallBulkCreate "sobj list" jsval
  | CallDelete type_arg jsval jsval
  | CallFind find_options
  | CallBulkGet "sobj list" jsval
  | CallGet type_arg jsval jsval
  | CallUpdate type_arg jsval jsval jsval

text \<open>The argument bundle \<^verbatim>\<open>args\<close> handed to the audit logger.\<close>

datatype args =
    ArgsCreate type_arg jsval jsval
  | ArgsBulkCreate "sobj list" jsval
  | ArgsDelete type_arg jsval jsval
  | ArgsFind find_options
  | ArgsBulkGet "sobj list" jsval
  | ArgsGet type_arg jsval jsval
  | ArgsUpdate type_arg jsval jsval jsval

text \<open>A repository: seven methods, each returning a value (\<open>Inr\<close>) or throwing (\<open>Inl\<close>).\<close>

record repository =
  repo_create :: "type_arg \<Rightarrow> jsval \<Rightarrow> jsval \<Rightarrow> jsval + jsval"
  repo_bulkCreate :: "sobj list \<Rightarrow> jsval \<Rightarrow> jsval + jsval"
  repo_delete :: "type_arg \<Rightarrow> jsval \<Rightarrow> jsval \<Rightarrow> jsval + jsval"
  repo_find :: "find_options \<Rightarrow> jsval + jsval"
  repo_bulkGet :: "sobj list \<Rightarrow> jsval \<Rightarrow> jsval + jsval"
  repo_get :: "type_arg \<Rightarrow> jsval \<Rightarrow> jsval \<Rightarrow> jsval + jsval"
  repo_update :: "type_arg \<Rightarrow> jsval \<Rightarrow> jsval \<Rightarrow> jsval \<Rightarrow> jsval + jsval"

fun apply_call :: "method_call \<Rightarrow> repository \<Rightarrow> jsval + jsval" where
  "apply_call (CallCreate t a opts) r = repo_create r t a opts"
| "apply_call (CallBulkCreate objs opts) r = repo_bulkCreate r objs opts"
| "apply_call (CallDelete t i opts) r = repo_delete r t i opts"
| "apply_call (CallFind opts) r = repo_find r opts"
| "apply_call (CallBulkGet objs opts) r = repo_bulkGet r objs opts"
| "apply_call (CallGet t i opts) r = repo_get r t i opts"
| "apply_call (CallUpdate t i a opts) r = repo_update r t i a opts"

text \<open>The constructor's \<^verbatim>\<open>options\<close>: the fields of the client.\<close>

record client =
  decorateGeneralError :: "jsval \<Rightarrow> jsval \<Rightarrow> jsval"
  decorateForbiddenError :: "jsval \<Rightarrow> jsval"
  internalRepository :: repository
  callWithRequestRepository :: repository
  checkPrivileges :: "action list \<Rightarrow> jsval + check_response"
  getSavedObjectAction :: "tyval \<Rightarrow> string \<Rightarrow> action"

text \<open>
  The calls the client makes to its collaborators, in the order it makes them. Each
  \<^verbatim>\<open>await\<close> is a sequential step. The two methods of the audit logger return nothing
  and are taken not to throw; the registry \<^verbatim>\<open>getSavedObjectAction\<close> is a total function.
\<close>

datatype repo_id = Internal | CallWithRequest

datatype event =
    CheckPrivileges "action list"
  | AuthorizationSuccess string string "tyval list" args
  | AuthorizationFailure string string "tyval list" "action list option" args
  | RepositoryCall repo_id method_call

type_synonym outcome = "event list \<times> (jsval + jsval)"

subsection \<open>The private methods\<close>

text \<open>
  \<^verbatim>\<open>_checkSavedObjectPrivileges\<close>: an error of the checker is decorated with the
  \<^verbatim>\<open>reason\<close> found at \<^verbatim>\<open>body.error\<close>; the destructuring in the \<^verbatim>\<open>catch\<close> block
  may itself throw.
\<close>

definition checkSavedObjectPrivileges :: "client \<Rightarrow> action list \<Rightarrow> jsval + check_response" where
  "checkSavedObjectPrivileges c actions =
     (case checkPrivileges c actions of
        Inr r \<Rightarrow> Inr r
      | Inl error \<Rightarrow>
          (case destructure_reason (lodash_get error ''body.error'' (JObj [])) of
             Inl type_error \<Rightarrow> Inl type_error
           | Inr reason \<Rightarrow> Inl (decorateGeneralError c error reason)))"

text \<open>\<^verbatim>\<open>Array.isArray(typeOrTypes) ? typeOrTypes : [typeOrTypes]\<close>\<close>

fun types_of :: "type_arg \<Rightarrow> tyval list" where
  "types_of (Many ts) = ts"
| "types_of (One t) = [t]"

text \<open>The message of the error thrown when the checker answers \<open>UNAUTHORIZED\<close>.\<close>

definition forbidden_msg :: "string \<Rightarrow> tyval list \<Rightarrow> action list \<Rightarrow> string" where
  "forbidden_msg action types ms =
     ''Unable to '' @ action @ '' '' @ array_join '','' (array_sort types) @
     '', missing '' @ array_join '','' (array_sort (map Some ms))"

text \<open>\<^verbatim>\<open>_execute(typeOrTypes, action, args, fn)\<close>\<close>

definition execute :: "client \<Rightarrow> type_arg \<Rightarrow> string \<Rightarrow> args \<Rightarrow> method_call \<Rightarrow> outcome" where
  "execute c typeOrTypes action args fn =
     (let types = types_of typeOrTypes;
          actions = map (\<lambda>t. getSavedObjectAction c t action) types
      in case checkSavedObjectPrivileges c actions of
           Inl e \<Rightarrow> ([CheckPrivileges actions], Inl e)
         | Inr r \<Rightarrow>
            (case result r of
               AUTHORIZED \<Rightarrow>
                 ([CheckPrivileges actions,
                   AuthorizationSuccess (username r) action types args,
                   RepositoryCall Internal fn],
                  apply_call fn (internalRepository c))
             | LEGACY \<Rightarrow>
                 ([CheckPrivileges actions, RepositoryCall CallWithRequest fn],
                  apply_call fn (callWithRequestRepository c))
             | UNAUTHORIZED \<Rightarrow>
                 ([CheckPrivileges actions,
                   AuthorizationFailure (username r) action types (missing r) args],
                  (case missing r of
                     None \<Rightarrow> Inl (JTypeError ''missing is not iterable'')
                   | Some ms \<Rightarrow>
                       Inl (decorateForbiddenError c (JError (forbidden_msg action types ms)))))
             | OTHER v \<Rightarrow>
                 ([CheckPrivileges actions],
                  Inl (JError ''Unexpected result from hasPrivileges''))))"

subsection \<open>The public methods\<close>

definition create :: "client \<Rightarrow> type_arg \<Rightarrow> jsval \<Rightarrow> jsval \<Rightarrow> outcome" where
  "create c type attributes0 options0 =
     (let attributes = default_obj attributes0; options = default_obj options0
      in execute c type ''create'' (ArgsCreate type attributes options)
           (CallCreate type attributes options))"

definition bulkCreate :: "client \<Rightarrow> sobj list \<Rightarrow> jsval \<Rightarrow> outcome" where
  "bulkCreate c objects options0 =
     (let options = default_obj options0;
          types = uniq (map obj_type objects)
      in execute c (Many types) ''bulk_create'' (ArgsBulkCreate objects options)
           (CallBulkCreate objects options))"

definition delete :: "client \<Rightarrow> type_arg \<Rightarrow> jsval \<Rightarrow> jsval \<Rightarrow> outcome" where
  "delete c type ident options0 =
     (let options = default_obj options0
      in execute c type ''delete'' (ArgsDelete type ident options) (CallDelete type ident options))"

definition find_op :: "client \<Rightarrow> find_options option \<Rightarrow> outcome" where
  "find_op c options0 =
     (let options = (case options0 of None \<Rightarrow> FindOptions (One None) (JObj []) | Some opts \<Rightarrow> opts)
      in execute c (fo_type options) ''find'' (ArgsFind options) (CallFind options))"

definition bulkGet :: "client \<Rightarrow> sobj list option \<Rightarrow> jsval \<Rightarrow> outcome" where
  "bulkGet c objects0 options0 =
     (let objects = (case objects0 of None \<Rightarrow> [] | Some objs \<Rightarrow> objs);
          options = default_obj options0;
          types = uniq (map obj_type objects)
      in execute c (Many types) ''bulk_get'' (ArgsBulkGet objects options)
           (CallBulkGet objects options))"

definition get :: "client \<Rightarrow> type_arg \<Rightarrow> jsval \<Rightarrow> jsval \<Rightarrow> outcome" where
  "get c type ident options0 =
     (let options = default_obj options0
      in execute c type ''get'' (ArgsGet type ident options) (CallGet type ident options))"

definition update :: "client \<Rightarrow> type_arg \<Rightarrow> jsval \<Rightarrow> jsval \<Rightarrow> jsval \<Rightarrow> outcome" where
  "update c type ident attributes options0 =
     (let options = default_obj options0
      in execute c type ''update'' (ArgsUpdate type ident attributes options)
           (CallUpdate type ident attributes options))"

subsection \<open>A public call\<close>

text \<open>
  The seven public methods with the arguments as the caller gives them: an omitted
  trailing argument is \<open>JUndefined\<close>, omitted \<^verbatim>\<open>find\<close> options and omitted \<^verbatim>\<open>bulkGet\<close>
  objects are \<open>None\<close>.
\<close>

datatype operation =
    Create type_arg jsval jsval
  | BulkCreate "sobj list" jsval
  | Delete type_arg jsval jsval
  | Find "find_options option"
  | BulkGet "sobj list option" jsval
  | Get type_arg jsval jsval
  | Update type_arg jsval jsval jsval

fun call :: "client \<Rightarrow> operation \<Rightarrow> outcome" where
  "call c (Create type attributes options) = create c type attributes options"
| "call c (BulkCreate objects options) = bulkCreate c objects options"
| "call c (Delete type ident options) = delete c type ident options"
| "call c (Find options) = find_op c options"
| "call c (BulkGet objects options) = bulkGet c objects options"
| "call c (Get type ident options) = get c type ident options"
| "call c (Update type ident attributes options) = update c type ident attributes options"

text \<open>What each method hands to \<^verbatim>\<open>_execute\<close>, argument by argument.\<close>

fun find_defaults :: "find_options option \<Rightarrow> find_options" where
  "find_defaults None = FindOptions (One None) (JObj [])"
| "find_defaults (Some opts) = opts"

fun objects_default :: "sobj list option \<Rightarrow> sobj list" where
  "objects_default None = []"
| "objects_default (Some objs) = objs"

fun op_typeOrTypes :: "operation \<Rightarrow> type_arg" where
  "op_typeOrTypes (Create t a opts) = t"
| "op_typeOrTypes (BulkCreate objs opts) = Many (uniq (map obj_type objs))"
| "op_typeOrTypes (Delete t i opts) = t"
| "op_typeOrTypes (Find opts) = fo_type (find_defaults opts)"
| "op_typeOrTypes (BulkGet objs opts) = Many (uniq (map obj_type (objects_default objs)))"
| "op_typeOrTypes (Get t i opts) = t"
| "op_typeOrTypes (Update t i a opts) = t"

fun op_action :: "operation \<Rightarrow> string" where
  "op_action (Create t a opts) = ''create''"
| "op_action (BulkCreate objs opts) = ''bulk_create''"
| "op_action (Delete t i opts) = ''delete''"
| "op_action (Find opts) = ''find''"
| "op_action (BulkGet objs opts) = ''bulk_get''"
| "op_action (Get t i opts) = ''get''"
| "op_action (Update t i a opts) = ''update''"

fun op_args :: "operation \<Rightarrow> args" where
  "op_args (Create t a opts) = ArgsCreate t (default_obj a) (default_obj opts)"
| "op_args (BulkCreate objs opts) = ArgsBulkCreate objs (default_obj opts)"
| "op_args (Delete t i opts) = ArgsDelete t i (default_obj opts)"
| "op_args (Find opts) = ArgsFind (find_defaults opts)"
| "op_args (BulkGet objs opts) = ArgsBulkGet (objects_default objs) (default_obj opts)"
| "op_args (Get t i opts) = ArgsGet t i (default_obj opts)"
| "op_args (Update t i a opts) = ArgsUpdate t i a (default_obj opts)"

fun op_fn :: "operation \<Rightarrow> method_call" where
  "op_fn (Create t a opts) = CallCreate t (default_obj a) (default_obj opts)"
| "op_fn (BulkCreate objs opts) = CallBulkCreate objs (default_obj opts)"
| "op_fn (Delete t i opts) = CallDelete t i (default_obj opts)"
| "op_fn (Find opts) = CallFind (find_defaults opts)"
| "op_fn (BulkGet objs opts) = CallBulkGet (objects_default objs) (default_obj opts)"
| "op_fn (Get t i opts) = CallGet t i (default_obj opts)"
| "op_fn (Update t i a opts) = CallUpdate t i a (default_obj opts)"

definition op_types :: "operation \<Rightarrow> tyval list" where
  "op_types op = types_of (op_typeOrTypes op)"

definition op_actions :: "client \<Rightarrow> operation \<Rightarrow> action list" where
  "op_actions c op = map (\<lambda>t. getSavedObjectAction c t (op_action op)) (op_types op)"

text \<open>The two methods that take a collection of objects.\<close>

fun is_bulk :: "operation \<Rightarrow> bool" where
  "is_bulk (BulkCreate objs opts) = True"
| "is_bulk (BulkGet objs opts) = True"
| "is_bulk op = False"

subsection \<open>Reading a trace\<close>

fun checker_calls :: "event list \<Rightarrow> action list list" where
  "checker_calls [] = []"
| "checker_calls (CheckPrivileges as # es) = as # checker_calls es"
| "checker_calls (e # es) = checker_calls es"

fun is_audit :: "event \<Rightarrow> bool" where
  "is_audit (AuthorizationSuccess u a ts ar) = True"
| "is_audit (AuthorizationFailure u a ts ms ar) = True"
| "is_audit e = False"

definition audit_events :: "event list \<Rightarrow> event list" where
  "audit_events tr = filter is_audit tr"

fun repository_calls :: "event list \<Rightarrow> repo_id list" where
  "repository_calls [] = []"
| "repository_calls (RepositoryCall r f # es) = r # repository_calls es"
| "repository_calls (e # es) = repository_calls es"

subsection \<open>The rule for bulk calls, as the specification words it\<close>

text \<open>
  One entry per distinct value, in the order of the first occurrences: the head stays and
  its later copies go.
\<close>

fun first_occurrences :: "'a list \<Rightarrow> 'a list" where
  "first_occurrences [] = []"
| "first_occurrences (x # xs) = x # first_occurrences (filter (\<lambda>y. y \<noteq> x) xs)"

subsection \<open>A sample deployment\<close>

text \<open>Concrete collaborators, for evaluating the client on concrete calls.\<close>

definition sample_repository :: "string \<Rightarrow> repository" where
  "sample_repository name =
     \<lparr>repo_create = (\<lambda>t a opts. Inr (JObj [(''by'', JStr name), (''did'', JStr ''create'')])),
      repo_bulkCreate = (\<lambda>objs opts. Inr (JObj [(''by'', JStr name), (''did'', JStr ''bulkCreate'')])),
      repo_delete = (\<lambda>t i opts. Inr (JObj [])),
      repo_find = (\<lambda>opts. Inr (JObj [(''by'', JStr name), (''did'', JStr ''find'')])),
      repo_bulkGet = (\<lambda>objs opts. Inr (JObj [(''by'', JStr name), (''did'', JStr ''bulkGet'')])),
      repo_get = (\<lambda>t i opts. Inl (JError (name @ '': not found''))),
      repo_update = (\<lambda>t i a opts. Inr (JObj [(''by'', JStr name), (''did'', JStr ''update'')]))\<rparr>"

definition sample_client :: "(action list \<Rightarrow> jsval + check_response) \<Rightarrow> client" where
  "sample_client checker =
     \<lparr>decorateGeneralError = (\<lambda>e reason. JObj [(''general'', e), (''reason'', reason)]),
      decorateForbiddenError = (\<lambda>e. JObj [(''forbidden'', e)]),
      internalRepository = sample_repository ''internal'',
      callWithRequestRepository = sample_repository ''callWithRequest'',
      checkPrivileges = checker,
      getSavedObjectAction =
        (\<lambda>t a. ''act:'' @ (case t of None \<Rightarrow> ''undefined'' | Some s \<Rightarrow> s) @ ''/'' @ a)\<rparr>"

definition answering :: "check_result \<Rightarrow> action list \<Rightarrow> jsval + check_response" where
  "answering res actions = Inr \<lparr>result = res, username = ''alice'', missing = None\<rparr>"

definition denying :: "action list \<Rightarrow> action list \<Rightarrow> jsval + check_response" where
  "denying ms actions = Inr \<lparr>result = UNAUTHORIZED, username = ''alice'', missing = Some ms\<rparr>"

definition failing :: "jsval \<Rightarrow> action list \<Rightarrow> jsval + check_response" where
  "failing e actions = Inl e"

definition sample_es_error :: jsval where
  "sample_es_error =
     JObj [(''message'', JStr ''boom''),
           (''body'', JObj [(''error'', JObj [(''type'', JStr ''x''), (''reason'', JStr ''r'')])])]"

definition flat_error :: jsval where
  "flat_error = JObj [(''body.error'', JObj [(''reason'', JStr ''r'')])]"

definition flat_and_nested_error :: jsval where
  "flat_and_nested_error =
     JObj [(''body.error'', JObj [(''reason'', JStr ''flat'')]),
           (''body'', JObj [(''error'', JObj [(''reason'', JStr ''nested'')])])]"

definition null_error :: jsval where
  "null_error = JObj [(''body'', JObj [(''error'', JNull)])]"

definition sample_objects :: "sobj list" where
  "sample_objects =
     [SObj (Some ''b'') (JObj [(''id'', JStr ''1'')]),
      SObj (Some ''a'') (JObj [(''id'', JStr ''2'')]),
      SObj (Some ''b'') (JObj [(''id'', JStr ''3'')])]"

section \<open>Properties\<close>

subsection \<open>Every public method is one run of \<^verbatim>\<open>_execute\<close>\<close>

lemma call_execute:
  "call c op = execute c (op_typeOrTypes op) (op_action op) (op_args op) (op_fn op)"
  by (cases op)
     (simp_all add: create_def bulkCreate_def delete_def find_op_def bulkGet_def get_def
        update_def Let_def split: option.splits)

lemma checked_Inr:
  "checkPrivileges c as = Inr r \<Longrightarrow> checkSavedObjectPrivileges c as = Inr r"
  by (simp add: checkSavedObjectPrivileges_def)

text \<open>
  What \<^verbatim>\<open>get(error, 'body.error', {})\<close> finds: the property named \<^verbatim>\<open>body.error\<close> where
  the error has one, the \<^verbatim>\<open>error\<close> of its \<^verbatim>\<open>body\<close> otherwise.
\<close>

lemma split_body_error: "split_on CHR ''.'' ''body.error'' = [''body'', ''error'']"
  by simp

lemma get_prop_nullish: "is_nullish v \<Longrightarrow> get_prop v k = JUndefined"
  by (cases v) simp_all

lemma has_prop_nullish: "is_nullish v \<Longrightarrow> \<not> has_prop v k"
  by (cases v) simp_all

lemma baseGet_two:
  "baseGet e [''body'', ''error''] =
     (if is_nullish e then JUndefined else get_prop (get_prop e ''body'') ''error'')"
  by (simp add: get_prop_nullish)

lemma lodash_get_body_error:
  "lodash_get e ''body.error'' d =
     (let found = (if has_prop e ''body.error'' then get_prop e ''body.error''
                   else get_prop (get_prop e ''body'') ''error'')
      in if found = JUndefined then d else found)"
proof (cases "is_nullish e")
  case True
  then show ?thesis
    by (simp add: lodash_get_def has_prop_nullish get_prop_nullish)
next
  case False
  show ?thesis
  proof (cases "has_prop e ''body.error''")
    case True
    with False show ?thesis
      by (simp add: lodash_get_def castPath_def)
  next
    case nf: False
    have "castPath ''body.error'' e = [''body'', ''error'']"
      using nf by (simp add: castPath_def)
    with False nf show ?thesis
      by (simp add: lodash_get_def Let_def get_prop_nullish)
  qed
qed

lemma checked_Inl:
  assumes "checkPrivileges c as = Inl e"
    and "found = (if has_prop e ''body.error'' then get_prop e ''body.error''
                  else get_prop (get_prop e ''body'') ''error'')"
  shows "checkSavedObjectPrivileges c as =
     (if found = JNull then Inl (JTypeError ''Cannot destructure property reason'')
      else Inl (decorateGeneralError c e (get_prop found ''reason'')))"
proof (cases "found = JUndefined")
  case True
  then have "lodash_get e ''body.error'' (JObj []) = JObj []"
    using assms(2) by (simp add: lodash_get_body_error)
  with True assms(1) show ?thesis
    by (simp add: checkSavedObjectPrivileges_def destructure_reason_def)
next
  case False
  then have l: "lodash_get e ''body.error'' (JObj []) = found"
    using assms(2) by (simp add: lodash_get_body_error)
  show ?thesis
  proof (cases "found = JNull")
    case True
    with l assms(1) show ?thesis
      by (simp add: checkSavedObjectPrivileges_def destructure_reason_def)
  next
    case nn: False
    with False have "\<not> is_nullish found" by (cases found) simp_all
    with l nn assms(1) show ?thesis
      by (simp add: checkSavedObjectPrivileges_def destructure_reason_def)
  qed
qed

lemma call_authorized:
  assumes "checkPrivileges c (op_actions c op) = Inr r" and "result r = AUTHORIZED"
  shows "call c op =
     ([CheckPrivileges (op_actions c op),
       AuthorizationSuccess (username r) (op_action op) (op_types op) (op_args op),
       RepositoryCall Internal (op_fn op)],
      apply_call (op_fn op) (internalRepository c))"
  using assms
  by (simp add: call_execute execute_def Let_def op_actions_def op_types_def checked_Inr)

lemma call_legacy:
  assumes "checkPrivileges c (op_actions c op) = Inr r" and "result r = LEGACY"
  shows "call c op =
     ([CheckPrivileges (op_actions c op), RepositoryCall CallWithRequest (op_fn op)],
      apply_call (op_fn op) (callWithRequestRepository c))"
  using assms
  by (simp add: call_execute execute_def Let_def op_actions_def op_types_def checked_Inr)

lemma call_unauthorized:
  assumes "checkPrivileges c (op_actions c op) = Inr r" and "result r = UNAUTHORIZED"
  shows "call c op =
     ([CheckPrivileges (op_actions c op),
       AuthorizationFailure (username r) (op_action op) (op_types op) (missing r) (op_args op)],
      (case missing r of
         None \<Rightarrow> Inl (JTypeError ''missing is not iterable'')
       | Some ms \<Rightarrow>
           Inl (decorateForbiddenError c
                 (JError (forbidden_msg (op_action op) (op_types op) ms)))))"
  using assms unfolding op_actions_def op_types_def
  by (simp add: call_execute execute_def Let_def checked_Inr)

lemma call_other:
  assumes "checkPrivileges c (op_actions c op) = Inr r" and "result r = OTHER v"
  shows "call c op =
     ([CheckPrivileges (op_actions c op)],
      Inl (JError ''Unexpected result from hasPrivileges''))"
  using assms
  by (simp add: call_execute execute_def Let_def op_actions_def op_types_def checked_Inr)

lemma call_checker_throws:
  assumes "checkPrivileges c (op_actions c op) = Inl e"
    and "found = (if has_prop e ''body.error'' then get_prop e ''body.error''
                  else get_prop (get_prop e ''body'') ''error'')"
  shows "call c op =
     ([CheckPrivileges (op_actions c op)],
      (if found = JNull then Inl (JTypeError ''Cannot destructure property reason'')
       else Inl (decorateGeneralError c e (get_prop found ''reason''))))"
proof -
  have "checkSavedObjectPrivileges c
          (map (\<lambda>t. getSavedObjectAction c t (op_action op)) (types_of (op_typeOrTypes op))) =
     (if found = JNull then Inl (JTypeError ''Cannot destructure property reason'')
      else Inl (decorateGeneralError c e (get_prop found ''reason'')))"
    using checked_Inl [OF _ assms(2), of c "op_actions c op"] assms(1)
    by (simp add: op_actions_def op_types_def)
  then show ?thesis
    by (simp add: call_execute execute_def Let_def op_actions_def op_types_def)
qed

lemma call_checker_throws_trace:
  assumes "checkPrivileges c (op_actions c op) = Inl e"
  shows "fst (call c op) = [CheckPrivileges (op_actions c op)]"
  using call_checker_throws [OF assms refl] by simp

text \<open>The five shapes a call can take, by what the checker does.\<close>

lemma call_cases:
  obtains
    (throws) e where "checkPrivileges c (op_actions c op) = Inl e"
  | (authorized) r where "checkPrivileges c (op_actions c op) = Inr r" "result r = AUTHORIZED"
  | (legacy) r where "checkPrivileges c (op_actions c op) = Inr r" "result r = LEGACY"
  | (unauthorized) r where "checkPrivileges c (op_actions c op) = Inr r" "result r = UNAUTHORIZED"
  | (other) r v where "checkPrivileges c (op_actions c op) = Inr r" "result r = OTHER v"
proof (cases "checkPrivileges c (op_actions c op)")
  case (Inl e)
  then show ?thesis by (rule throws)
next
  case (Inr r)
  then show ?thesis
    by (cases "result r") (auto intro: authorized legacy unauthorized other)
qed

lemma checker_calls_call: "checker_calls (fst (call c op)) = [op_actions c op]"
  by (cases c op rule: call_cases)
     (simp_all add: call_checker_throws_trace call_authorized call_legacy call_unauthorized
        call_other)

subsection \<open>\<^verbatim>\<open>uniq\<close> keeps the first occurrences\<close>

lemma uniq_foldl:
  "foldl (\<lambda>result v. if v \<in> set result then result else result @ [v]) acc xs =
   acc @ first_occurrences (filter (\<lambda>y. y \<notin> set acc) xs)"
proof (induction xs arbitrary: acc)
  case Nil
  show ?case by simp
next
  case (Cons x xs)
  show ?case
  proof (cases "x \<in> set acc")
    case True
    then show ?thesis by (simp add: Cons.IH)
  next
    case False
    have "filter (\<lambda>y. y \<notin> set (acc @ [x])) xs =
          filter (\<lambda>y. y \<noteq> x) (filter (\<lambda>y. y \<notin> set acc) xs)"
      by (induction xs) auto
    with False show ?thesis by (simp add: Cons.IH)
  qed
qed

lemma uniq_first_occurrences: "uniq xs = first_occurrences xs"
  by (simp add: uniq_def uniq_foldl)

lemma set_first_occurrences: "set (first_occurrences xs) = set xs"
  by (induction xs rule: first_occurrences.induct) auto

lemma distinct_first_occurrences: "distinct (first_occurrences xs)"
  by (induction xs rule: first_occurrences.induct) (auto simp: set_first_occurrences)


subsection \<open>Sorting forgets the order of the input\<close>

lemma filter_None_replicate:
  "filter (\<lambda>x. x = None) xs = replicate (count (mset xs) None) None"
  by (induction xs) auto

lemma array_sort_perm:
  assumes "mset xs = mset ys"
  shows "array_sort xs = array_sort ys"
proof -
  have "mset (map the (filter (\<lambda>x. x \<noteq> None) xs)) =
        mset (map the (filter (\<lambda>x. x \<noteq> None) ys))"
    using assms by simp
  then have "sort (map the (filter (\<lambda>x. x \<noteq> None) xs)) =
             sort (map the (filter (\<lambda>x. x \<noteq> None) ys))"
    by (metis properties_for_sort sorted_sort mset_sort)
  moreover have "filter (\<lambda>x. x = None) xs = filter (\<lambda>x. x = None) ys"
    using assms by (simp add: filter_None_replicate)
  ultimately show ?thesis by (simp add: array_sort_def)
qed

lemma array_sort_strings: "array_sort (map Some ss) = map Some (sort ss)"
  by (simp add: array_sort_def filter_map comp_def)

lemma mset_array_sort: "mset (array_sort xs) = mset xs"
proof -
  have "map Some (map the (filter (\<lambda>x. x \<noteq> None) xs)) = filter (\<lambda>x. x \<noteq> None) xs"
    by (induction xs) auto
  then have "mset (map Some (sort (map the (filter (\<lambda>x. x \<noteq> None) xs)))) =
             mset (filter (\<lambda>x. x \<noteq> None) xs)"
    by (metis mset_map mset_sort)
  then show ?thesis
    by (simp add: array_sort_def)
qed

lemma forbidden_msg_perm:
  assumes "mset ts' = mset ts" and "mset ms' = mset ms"
  shows "forbidden_msg a ts' ms' = forbidden_msg a ts ms"
proof -
  have "array_sort ts' = array_sort ts"
    using assms(1) by (rule array_sort_perm)
  moreover have "array_sort (map Some ms') = array_sort (map Some ms)"
    using assms(2) by (intro array_sort_perm) simp
  ultimately show ?thesis by (simp add: forbidden_msg_def)
qed

lemma forbidden_msg_sorted:
  "forbidden_msg a ts ms =
     ''Unable to '' @ a @ '' '' @ array_join '','' (array_sort ts) @
     '', missing '' @ array_join '','' (map Some (sort ms))"
  by (simp add: forbidden_msg_def array_sort_strings)

text \<open>The types of a call are distinct when it is a bulk call or names one type.\<close>

lemma op_types_bulk: "is_bulk op \<Longrightarrow> distinct (op_types op)"
  by (cases op)
     (simp_all add: op_types_def uniq_first_occurrences distinct_first_occurrences)

lemma op_types_one: "op_typeOrTypes op = One t \<Longrightarrow> op_types op = [t]"
  by (simp add: op_types_def)

section \<open>The claims\<close>

subsection \<open>The three answers of the checker\<close>

text \<open>
  C2. For every public operation, when the privilege checker answers AUTHORIZED, the
  client records exactly one audit-success event, records it before it invokes the
  privileged (internal) repository, returns what that repository returns as it is, and
  never invokes the legacy (call-with-request) repository. Method by method, the outcome
  of the call is the outcome of the internal repository's method of the same name on the
  arguments of the call, defaults filled in.
\<close>

theorem authorized_audit_then_internal:
  assumes "checkPrivileges c (op_actions c op) = Inr r" and "result r = AUTHORIZED"
  shows "fst (call c op) =
           [CheckPrivileges (op_actions c op),
            AuthorizationSuccess (username r) (op_action op) (op_types op) (op_args op),
            RepositoryCall Internal (op_fn op)] \<and>
         audit_events (fst (call c op)) =
           [AuthorizationSuccess (username r) (op_action op) (op_types op) (op_args op)] \<and>
         repository_calls (fst (call c op)) = [Internal] \<and>
         snd (call c op) = apply_call (op_fn op) (internalRepository c) \<and>
         (case op of
            Create t a opts \<Rightarrow>
              snd (call c op) = repo_create (internalRepository c) t (default_obj a) (default_obj opts)
          | BulkCreate objs opts \<Rightarrow>
              snd (call c op) = repo_bulkCreate (internalRepository c) objs (default_obj opts)
          | Delete t i opts \<Rightarrow>
              snd (call c op) = repo_delete (internalRepository c) t i (default_obj opts)
          | Find opts \<Rightarrow>
              snd (call c op) = repo_find (internalRepository c) (find_defaults opts)
          | BulkGet objs opts \<Rightarrow>
              snd (call c op) =
                repo_bulkGet (internalRepository c) (objects_default objs) (default_obj opts)
          | Get t i opts \<Rightarrow>
              snd (call c op) = repo_get (internalRepository c) t i (default_obj opts)
          | Update t i a opts \<Rightarrow>
              snd (call c op) = repo_update (internalRepository c) t i a (default_obj opts)) \<and>
         (case op of
            Create t a opts \<Rightarrow>
              last (fst (call c op)) =
                RepositoryCall Internal (CallCreate t (default_obj a) (default_obj opts))
          | BulkCreate objs opts \<Rightarrow>
              last (fst (call c op)) = RepositoryCall Internal (CallBulkCreate objs (default_obj opts))
          | Delete t i opts \<Rightarrow>
              last (fst (call c op)) = RepositoryCall Internal (CallDelete t i (default_obj opts))
          | Find opts \<Rightarrow>
              last (fst (call c op)) = RepositoryCall Internal (CallFind (find_defaults opts))
          | BulkGet objs opts \<Rightarrow>
              last (fst (call c op)) =
                RepositoryCall Internal (CallBulkGet (objects_default objs) (default_obj opts))
          | Get t i opts \<Rightarrow>
              last (fst (call c op)) = RepositoryCall Internal (CallGet t i (default_obj opts))
          | Update t i a opts \<Rightarrow>
              last (fst (call c op)) = RepositoryCall Internal (CallUpdate t i a (default_obj opts)))"
proof -
  note c = call_authorized [OF assms]
  have 1: "fst (call c op) =
           [CheckPrivileges (op_actions c op),
            AuthorizationSuccess (username r) (op_action op) (op_types op) (op_args op),
            RepositoryCall Internal (op_fn op)]"
    by (simp only: c fst_conv)
  have 2: "audit_events (fst (call c op)) =
           [AuthorizationSuccess (username r) (op_action op) (op_types op) (op_args op)]"
    by (simp add: c audit_events_def)
  have 3: "repository_calls (fst (call c op)) = [Internal]"
    by (simp add: c)
  have 4: "snd (call c op) = apply_call (op_fn op) (internalRepository c)"
    by (simp only: c snd_conv)
  have 5: "(case op of
            Create t a opts \<Rightarrow>
              snd (call c op) = repo_create (internalRepository c) t (default_obj a) (default_obj opts)
          | BulkCreate objs opts \<Rightarrow>
              snd (call c op) = repo_bulkCreate (internalRepository c) objs (default_obj opts)
          | Delete t i opts \<Rightarrow>
              snd (call c op) = repo_delete (internalRepository c) t i (default_obj opts)
          | Find opts \<Rightarrow>
              snd (call c op) = repo_find (internalRepository c) (find_defaults opts)
          | BulkGet objs opts \<Rightarrow>
              snd (call c op) =
                repo_bulkGet (internalRepository c) (objects_default objs) (default_obj opts)
          | Get t i opts \<Rightarrow>
              snd (call c op) = repo_get (internalRepository c) t i (default_obj opts)
          | Update t i a opts \<Rightarrow>
              snd (call c op) = repo_update (internalRepository c) t i a (default_obj opts))"
    using 4 by (cases op) simp_all
  have 6: "(case op of
            Create t a opts \<Rightarrow>
              last (fst (call c op)) =
                RepositoryCall Internal (CallCreate t (default_obj a) (default_obj opts))
          | BulkCreate objs opts \<Rightarrow>
              last (fst (call c op)) = RepositoryCall Internal (CallBulkCreate objs (default_obj opts))
          | Delete t i opts \<Rightarrow>
              last (fst (call c op)) = RepositoryCall Internal (CallDelete t i (default_obj opts))
          | Find opts \<Rightarrow>
              last (fst (call c op)) = RepositoryCall Internal (CallFind (find_defaults opts))
          | BulkGet objs opts \<Rightarrow>
              last (fst (call c op)) =
                RepositoryCall Internal (CallBulkGet (objects_default objs) (default_obj opts))
          | Get t i opts \<Rightarrow>
              last (fst (call c op)) = RepositoryCall Internal (CallGet t i (default_obj opts))
          | Update t i a opts \<Rightarrow>
              last (fst (call c op)) = RepositoryCall Internal (CallUpdate t i a (default_obj opts)))"
    using 1 by (cases op) simp_all
  from 1 2 3 4 5 6 show ?thesis by blast
qed

theorem authorized_audit_then_internal_witness:
  "checkPrivileges (sample_client (answering AUTHORIZED))
     (op_actions (sample_client (answering AUTHORIZED)) (Create (One (Some ''dashboard'')) JUndefined JUndefined))
     = Inr \<lparr>result = AUTHORIZED, username = ''alice'', missing = None\<rparr> \<and>
   call (sample_client (answering AUTHORIZED)) (Create (One (Some ''dashboard'')) JUndefined JUndefined) =
     ([CheckPrivileges [''act:dashboard/create''],
       AuthorizationSuccess ''alice'' ''create'' [Some ''dashboard'']
         (ArgsCreate (One (Some ''dashboard'')) (JObj []) (JObj [])),
       RepositoryCall Internal (CallCreate (One (Some ''dashboard'')) (JObj []) (JObj []))],
      Inr (JObj [(''by'', JStr ''internal''), (''did'', JStr ''create'')]))"
proof -
  let ?c = "sample_client (answering AUTHORIZED)"
  let ?op = "Create (One (Some ''dashboard'')) JUndefined JUndefined"
  let ?r = "\<lparr>result = AUTHORIZED, username = ''alice'', missing = None\<rparr>"
  have h: "checkPrivileges ?c (op_actions ?c ?op) = Inr ?r"
    by (simp add: sample_client_def answering_def)
  have "result ?r = AUTHORIZED" by simp
  from authorized_audit_then_internal [OF h this] h show ?thesis
    by (simp add: prod_eq_iff sample_client_def sample_repository_def op_actions_def
        op_types_def default_obj_def)
qed

text \<open>
  C3. For every public operation, when the privilege checker answers LEGACY, the client
  invokes the legacy (call-with-request) repository and returns what it returns as it is,
  never invokes the privileged (internal) repository, and records no audit event, neither
  success nor failure. Method by method, the outcome of the call is the outcome of the
  call-with-request repository's method of the same name on the arguments of the call,
  defaults filled in.
\<close>

theorem legacy_no_audit_call_with_request:
  assumes "checkPrivileges c (op_actions c op) = Inr r" and "result r = LEGACY"
  shows "fst (call c op) =
           [CheckPrivileges (op_actions c op), RepositoryCall CallWithRequest (op_fn op)] \<and>
         audit_events (fst (call c op)) = [] \<and>
         repository_calls (fst (call c op)) = [CallWithRequest] \<and>
         snd (call c op) = apply_call (op_fn op) (callWithRequestRepository c) \<and>
         (case op of
            Create t a opts \<Rightarrow>
              snd (call c op) = repo_create (callWithRequestRepository c) t (default_obj a) (default_obj opts)
          | BulkCreate objs opts \<Rightarrow>
              snd (call c op) = repo_bulkCreate (callWithRequestRepository c) objs (default_obj opts)
          | Delete t i opts \<Rightarrow>
              snd (call c op) = repo_delete (callWithRequestRepository c) t i (default_obj opts)
          | Find opts \<Rightarrow>
              snd (call c op) = repo_find (callWithRequestRepository c) (find_defaults opts)
          | BulkGet objs opts \<Rightarrow>
              snd (call c op) =
                repo_bulkGet (callWithRequestRepository c) (objects_default objs) (default_obj opts)
          | Get t i opts \<Rightarrow>
              snd (call c op) = repo_get (callWithRequestRepository c) t i (default_obj opts)
          | Update t i a opts \<Rightarrow>
              snd (call c op) = repo_update (callWithRequestRepository c) t i a (default_obj opts)) \<and>
         (case op of
            Create t a opts \<Rightarrow>
              last (fst (call c op)) =
                RepositoryCall CallWithRequest (CallCreate t (default_obj a) (default_obj opts))
          | BulkCreate objs opts \<Rightarrow>
              last (fst (call c op)) = RepositoryCall CallWithRequest (CallBulkCreate objs (default_obj opts))
          | Delete t i opts \<Rightarrow>
              last (fst (call c op)) = RepositoryCall CallWithRequest (CallDelete t i (default_obj opts))
          | Find opts \<Rightarrow>
              last (fst (call c op)) = RepositoryCall CallWithRequest (CallFind (find_defaults opts))
          | BulkGet objs opts \<Rightarrow>
              last (fst (call c op)) =
                RepositoryCall CallWithRequest (CallBulkGet (objects_default objs) (default_obj opts))
          | Get t i opts \<Rightarrow>
              last (fst (call c op)) = RepositoryCall CallWithRequest (CallGet t i (default_obj opts))
          | Update t i a opts \<Rightarrow>
              last (fst (call c op)) = RepositoryCall CallWithRequest (CallUpdate t i a (default_obj opts)))"
proof -
  note c = call_legacy [OF assms]
  have 1: "fst (call c op) =
           [CheckPrivileges (op_actions c op), RepositoryCall CallWithRequest (op_fn op)]"
    by (simp only: c fst_conv)
  have 2: "audit_events (fst (call c op)) = []"
    by (simp add: c audit_events_def)
  have 3: "repository_calls (fst (call c op)) = [CallWithRequest]"
    by (simp add: c)
  have 4: "snd (call c op) = apply_call (op_fn op) (callWithRequestRepository c)"
    by (simp only: c snd_conv)
  have 5: "(case op of
            Create t a opts \<Rightarrow>
              snd (call c op) = repo_create (callWithRequestRepository c) t (default_obj a) (default_obj opts)
          | BulkCreate objs opts \<Rightarrow>
              snd (call c op) = repo_bulkCreate (callWithRequestRepository c) objs (default_obj opts)
          | Delete t i opts \<Rightarrow>
              snd (call c op) = repo_delete (callWithRequestRepository c) t i (default_obj opts)
          | Find opts \<Rightarrow>
              snd (call c op) = repo_find (callWithRequestRepository c) (find_defaults opts)
          | BulkGet objs opts \<Rightarrow>
              snd (call c op) =
                repo_bulkGet (callWithRequestRepository c) (objects_default objs) (default_obj opts)
          | Get t i opts \<Rightarrow>
              snd (call c op) = repo_get (callWithRequestRepository c) t i (default_obj opts)
          | Update t i a opts \<Rightarrow>
              snd (call c op) = repo_update (callWithRequestRepository c) t i a (default_obj opts))"
    using 4 by (cases op) simp_all
  have 6: "(case op of
            Create t a opts \<Rightarrow>
              last (fst (call c op)) =
                RepositoryCall CallWithRequest (CallCreate t (default_obj a) (default_obj opts))
          | BulkCreate objs opts \<Rightarrow>
              last (fst (call c op)) = RepositoryCall CallWithRequest (CallBulkCreate objs (default_obj opts))
          | Delete t i opts \<Rightarrow>
              last (fst (call c op)) = RepositoryCall CallWithRequest (CallDelete t i (default_obj opts))
          | Find opts \<Rightarrow>
              last (fst (call c op)) = RepositoryCall CallWithRequest (CallFind (find_defaults opts))
          | BulkGet objs opts \<Rightarrow>
              last (fst (call c op)) =
                RepositoryCall CallWithRequest (CallBulkGet (objects_default objs) (default_obj opts))
          | Get t i opts \<Rightarrow>
              last (fst (call c op)) = RepositoryCall CallWithRequest (CallGet t i (default_obj opts))
          | Update t i a opts \<Rightarrow>
              last (fst (call c op)) = RepositoryCall CallWithRequest (CallUpdate t i a (default_obj opts)))"
    using 1 by (cases op) simp_all
  from 1 2 3 4 5 6 show ?thesis by blast
qed

theorem legacy_no_audit_call_with_request_witness:
  "checkPrivileges (sample_client (answering LEGACY))
     (op_actions (sample_client (answering LEGACY)) (Update (One (Some ''visualization'')) (JStr ''7'') (JObj [(''title'', JStr ''t'')]) JUndefined))
     = Inr \<lparr>result = LEGACY, username = ''alice'', missing = None\<rparr> \<and>
   call (sample_client (answering LEGACY)) (Update (One (Some ''visualization'')) (JStr ''7'') (JObj [(''title'', JStr ''t'')]) JUndefined) =
     ([CheckPrivileges [''act:visualization/update''],
       RepositoryCall CallWithRequest
         (CallUpdate (One (Some ''visualization'')) (JStr ''7'') (JObj [(''title'', JStr ''t'')]) (JObj []))],
      Inr (JObj [(''by'', JStr ''callWithRequest''), (''did'', JStr ''update'')]))"
proof -
  let ?c = "sample_client (answering LEGACY)"
  let ?op = "Update (One (Some ''visualization'')) (JStr ''7'') (JObj [(''title'', JStr ''t'')]) JUndefined"
  let ?r = "\<lparr>result = LEGACY, username = ''alice'', missing = None\<rparr>"
  have h: "checkPrivileges ?c (op_actions ?c ?op) = Inr ?r"
    by (simp add: sample_client_def answering_def)
  have "result ?r = LEGACY" by simp
  from legacy_no_audit_call_with_request [OF h this] h show ?thesis
    by (simp add: prod_eq_iff sample_client_def sample_repository_def op_actions_def
        op_types_def default_obj_def)
qed

text \<open>
  C4. For every public operation, when the privilege checker answers with a result that
  is none of AUTHORIZED, LEGACY and UNAUTHORIZED, the call fails with the plain internal
  error \<^verbatim>\<open>Unexpected result from hasPrivileges\<close>, and neither repository is invoked.
\<close>

theorem unexpected_result_fails:
  assumes "checkPrivileges c (op_actions c op) = Inr r"
    and "result r \<noteq> AUTHORIZED" and "result r \<noteq> LEGACY" and "result r \<noteq> UNAUTHORIZED"
  shows "snd (call c op) = Inl (JError ''Unexpected result from hasPrivileges'') \<and>
         repository_calls (fst (call c op)) = [] \<and>
         audit_events (fst (call c op)) = []"
proof -
  from assms(2-4) obtain v where "result r = OTHER v"
    by (cases "result r") auto
  from call_other [OF assms(1) this] show ?thesis
    by (simp add: audit_events_def)
qed

theorem unexpected_result_fails_witness:
  "checkPrivileges (sample_client (answering (OTHER ''maybe'')))
     (op_actions (sample_client (answering (OTHER ''maybe''))) (Delete (One (Some ''dashboard'')) (JStr ''7'') JUndefined))
     = Inr \<lparr>result = OTHER ''maybe'', username = ''alice'', missing = None\<rparr> \<and>
   OTHER ''maybe'' \<noteq> AUTHORIZED \<and> OTHER ''maybe'' \<noteq> LEGACY \<and> OTHER ''maybe'' \<noteq> UNAUTHORIZED \<and>
   call (sample_client (answering (OTHER ''maybe''))) (Delete (One (Some ''dashboard'')) (JStr ''7'') JUndefined) =
     ([CheckPrivileges [''act:dashboard/delete'']],
      Inl (JError ''Unexpected result from hasPrivileges''))"
proof -
  let ?c = "sample_client (answering (OTHER ''maybe''))"
  let ?op = "Delete (One (Some ''dashboard'')) (JStr ''7'') JUndefined"
  let ?r = "\<lparr>result = OTHER ''maybe'', username = ''alice'', missing = None\<rparr>"
  have h: "checkPrivileges ?c (op_actions ?c ?op) = Inr ?r"
    by (simp add: sample_client_def answering_def)
  have "result ?r \<noteq> AUTHORIZED" "result ?r \<noteq> LEGACY" "result ?r \<noteq> UNAUTHORIZED"
    by simp_all
  from unexpected_result_fails [OF h this] h have
    "snd (call ?c ?op) = Inl (JError ''Unexpected result from hasPrivileges'')"
    by simp
  moreover have "fst (call ?c ?op) = [CheckPrivileges [''act:dashboard/delete'']]"
    using checker_calls_call [of ?c ?op] call_other [OF h, of "''maybe''"]
    by (simp add: sample_client_def op_actions_def op_types_def)
  ultimately show ?thesis using h
    by (simp add: prod_eq_iff)
qed

subsection \<open>The refusal\<close>

text \<open>
  C1, as amended. For every public operation, when the privilege checker answers
  UNAUTHORIZED and the answer carries its missing actions, no repository is invoked,
  exactly one audit-failure event is recorded, and the call fails with the error the factory's
  \<^verbatim>\<open>decorateForbiddenError\<close> makes of the message \<^verbatim>\<open>Unable to <action> <types>, missing
  <missing actions>\<close>, the types and the missing actions both sorted and joined with
  commas. The message is the same for every other order of the types and of the missing
  actions. The types are those of the call: distinct for the bulk methods and for a
  single type, and as they are given, duplicates kept, where an array is passed as the
  type (as the type filter of \<^verbatim>\<open>find\<close> may be).
\<close>

theorem unauthorized_forbidden:
  assumes "checkPrivileges c (op_actions c op) = Inr r" and "result r = UNAUTHORIZED"
    and "missing r = Some ms"
  shows "repository_calls (fst (call c op)) = [] \<and>
         audit_events (fst (call c op)) =
           [AuthorizationFailure (username r) (op_action op) (op_types op) (Some ms) (op_args op)] \<and>
         snd (call c op) =
           Inl (decorateForbiddenError c (JError
             (''Unable to '' @ op_action op @ '' '' @ array_join '','' (array_sort (op_types op)) @
              '', missing '' @ array_join '','' (map Some (sort ms))))) \<and>
         (\<forall>ts' ms'. mset ts' = mset (op_types op) \<and> mset ms' = mset ms \<longrightarrow>
            forbidden_msg (op_action op) ts' ms' =
              ''Unable to '' @ op_action op @ '' '' @ array_join '','' (array_sort (op_types op)) @
              '', missing '' @ array_join '','' (map Some (sort ms))) \<and>
         mset (array_sort (op_types op)) = mset (op_types op) \<and>
         (is_bulk op \<or> (\<exists>t. op_typeOrTypes op = One t) \<longrightarrow> distinct (op_types op))"
proof -
  let ?msg = "''Unable to '' @ op_action op @ '' '' @ array_join '','' (array_sort (op_types op)) @
              '', missing '' @ array_join '','' (map Some (sort ms))"
  have msg: "forbidden_msg (op_action op) (op_types op) ms = ?msg"
    by (rule forbidden_msg_sorted)
  have c: "call c op =
     ([CheckPrivileges (op_actions c op),
       AuthorizationFailure (username r) (op_action op) (op_types op) (Some ms) (op_args op)],
      Inl (decorateForbiddenError c (JError (forbidden_msg (op_action op) (op_types op) ms))))"
    using call_unauthorized [OF assms(1,2)] by (simp only: assms(3) option.case)
  have 1: "repository_calls (fst (call c op)) = []"
    by (simp only: c fst_conv repository_calls.simps)
  have 2: "audit_events (fst (call c op)) =
           [AuthorizationFailure (username r) (op_action op) (op_types op) (Some ms) (op_args op)]"
    by (simp only: c fst_conv audit_events_def filter.simps is_audit.simps if_True if_False)
  have 3: "snd (call c op) = Inl (decorateForbiddenError c (JError ?msg))"
    by (simp only: c snd_conv msg)
  have 4: "\<forall>ts' ms'. mset ts' = mset (op_types op) \<and> mset ms' = mset ms \<longrightarrow>
            forbidden_msg (op_action op) ts' ms' = ?msg"
  proof (intro allI impI)
    fix ts' ms'
    assume "mset ts' = mset (op_types op) \<and> mset ms' = mset ms"
    then have "forbidden_msg (op_action op) ts' ms' = forbidden_msg (op_action op) (op_types op) ms"
      by (intro forbidden_msg_perm) blast+
    then show "forbidden_msg (op_action op) ts' ms' = ?msg"
      by (simp only: msg)
  qed
  have 5: "mset (array_sort (op_types op)) = mset (op_types op)"
    by (rule mset_array_sort)
  have 6: "is_bulk op \<or> (\<exists>t. op_typeOrTypes op = One t) \<longrightarrow> distinct (op_types op)"
    using op_types_bulk [of op] op_types_one [of op] by auto
  from 1 2 3 4 5 6 show ?thesis by blast
qed

theorem unauthorized_forbidden_witness:
  "checkPrivileges (sample_client (denying [''act:y'', ''act:x'']))
     (op_actions (sample_client (denying [''act:y'', ''act:x''])) (BulkGet (Some sample_objects) JUndefined))
     = Inr \<lparr>result = UNAUTHORIZED, username = ''alice'', missing = Some [''act:y'', ''act:x'']\<rparr> \<and>
   op_types (BulkGet (Some sample_objects) JUndefined) = [Some ''b'', Some ''a''] \<and>
   is_bulk (BulkGet (Some sample_objects) JUndefined) \<and>
   call (sample_client (denying [''act:y'', ''act:x''])) (BulkGet (Some sample_objects) JUndefined) =
     ([CheckPrivileges [''act:b/bulk_get'', ''act:a/bulk_get''],
       AuthorizationFailure ''alice'' ''bulk_get'' [Some ''b'', Some ''a''] (Some [''act:y'', ''act:x''])
         (ArgsBulkGet sample_objects (JObj []))],
      Inl (JObj [(''forbidden'', JError ''Unable to bulk_get a,b, missing act:x,act:y'')])) \<and>
   forbidden_msg ''bulk_get'' [Some ''a'', Some ''b''] [''act:x'', ''act:y''] =
     ''Unable to bulk_get a,b, missing act:x,act:y''"
proof -
  let ?c = "sample_client (denying [''act:y'', ''act:x''])"
  let ?op = "BulkGet (Some sample_objects) JUndefined"
  let ?r = "\<lparr>result = UNAUTHORIZED, username = ''alice'', missing = Some [''act:y'', ''act:x'']\<rparr>"
  have h: "checkPrivileges ?c (op_actions ?c ?op) = Inr ?r"
    by (simp add: sample_client_def denying_def)
  have u: "result ?r = UNAUTHORIZED" and m: "missing ?r = Some [''act:y'', ''act:x'']"
    by simp_all
  have ts: "op_types ?op = [Some ''b'', Some ''a'']"
    by (simp add: op_types_def uniq_def sample_objects_def)
  have srt: "array_sort [Some ''b'', Some ''a''] = [Some ''a'', Some ''b'']"
    by (simp add: array_sort_def)
  have tr: "fst (call ?c ?op) =
     [CheckPrivileges [''act:b/bulk_get'', ''act:a/bulk_get''],
       AuthorizationFailure ''alice'' ''bulk_get'' [Some ''b'', Some ''a''] (Some [''act:y'', ''act:x''])
         (ArgsBulkGet sample_objects (JObj []))]"
    using call_unauthorized [OF h u]
    by (simp add: ts op_actions_def sample_client_def default_obj_def)
  note inst = unauthorized_forbidden [OF h u m]
  from inst have res: "snd (call ?c ?op) =
      Inl (JObj [(''forbidden'', JError ''Unable to bulk_get a,b, missing act:x,act:y'')])"
    by (simp add: ts srt sample_client_def)
  from inst have "forbidden_msg ''bulk_get'' [Some ''a'', Some ''b''] [''act:x'', ''act:y''] =
     ''Unable to bulk_get a,b, missing act:x,act:y''"
    by (simp add: ts srt)
  with h ts tr res show ?thesis
    by (simp add: prod_eq_iff)
qed

text \<open>
  C1, as the specification states it, has the distinct types in the message of every
  refused call, and a Forbidden error for every refusal. A \<^verbatim>\<open>find\<close> whose type filter is
  the array \<^verbatim>\<open>['b', 'a', 'b']\<close> is refused with the types \<^verbatim>\<open>a,b,b\<close>. A refusal that
  carries no missing actions fails with the \<^verbatim>\<open>TypeError\<close> of spreading \<^verbatim>\<open>undefined\<close>,
  after the audit event.
\<close>

theorem find_duplicate_types_in_message:
  "checkPrivileges (sample_client (denying [''act:x'']))
     (op_actions (sample_client (denying [''act:x'']))
        (Find (Some (FindOptions (Many [Some ''b'', Some ''a'', Some ''b'']) (JObj [])))))
     = Inr \<lparr>result = UNAUTHORIZED, username = ''alice'', missing = Some [''act:x'']\<rparr> \<and>
   op_types (Find (Some (FindOptions (Many [Some ''b'', Some ''a'', Some ''b'']) (JObj [])))) =
     [Some ''b'', Some ''a'', Some ''b''] \<and>
   \<not> distinct (op_types (Find (Some (FindOptions (Many [Some ''b'', Some ''a'', Some ''b'']) (JObj []))))) \<and>
   snd (call (sample_client (denying [''act:x'']))
          (Find (Some (FindOptions (Many [Some ''b'', Some ''a'', Some ''b'']) (JObj []))))) =
     Inl (JObj [(''forbidden'', JError ''Unable to find a,b,b, missing act:x'')]) \<and>
   snd (call (sample_client (denying [''act:x'']))
          (Find (Some (FindOptions (Many [Some ''b'', Some ''a'', Some ''b'']) (JObj []))))) \<noteq>
     Inl (JObj [(''forbidden'', JError ''Unable to find a,b, missing act:x'')]) \<and>
   call (sample_client (answering UNAUTHORIZED)) (Get (One (Some ''dashboard'')) (JStr ''7'') JUndefined) =
     ([CheckPrivileges [''act:dashboard/get''],
       AuthorizationFailure ''alice'' ''get'' [Some ''dashboard''] None
         (ArgsGet (One (Some ''dashboard'')) (JStr ''7'') (JObj []))],
      Inl (JTypeError ''missing is not iterable''))"
proof -
  let ?c = "sample_client (denying [''act:x''])"
  let ?op = "Find (Some (FindOptions (Many [Some ''b'', Some ''a'', Some ''b'']) (JObj [])))"
  let ?r = "\<lparr>result = UNAUTHORIZED, username = ''alice'', missing = Some [''act:x'']\<rparr>"
  let ?c2 = "sample_client (answering UNAUTHORIZED)"
  let ?op2 = "Get (One (Some ''dashboard'')) (JStr ''7'') JUndefined"
  let ?r2 = "\<lparr>result = UNAUTHORIZED, username = ''alice'', missing = None\<rparr>"
  have h: "checkPrivileges ?c (op_actions ?c ?op) = Inr ?r"
    by (simp add: sample_client_def denying_def)
  have u: "result ?r = UNAUTHORIZED" by simp
  have ts: "op_types ?op = [Some ''b'', Some ''a'', Some ''b'']"
    by (simp add: op_types_def)
  have srt: "array_sort [Some ''b'', Some ''a'', Some ''b''] = [Some ''a'', Some ''b'', Some ''b'']"
    by (simp add: array_sort_def)
  have msg: "forbidden_msg ''find'' [Some ''b'', Some ''a'', Some ''b''] [''act:x''] =
      ''Unable to find a,b,b, missing act:x''"
    by (simp add: forbidden_msg_sorted srt)
  have d: "decorateForbiddenError ?c e = JObj [(''forbidden'', e)]" for e
    by (simp add: sample_client_def)
  have s: "snd (call ?c ?op) =
      Inl (JObj [(''forbidden'', JError ''Unable to find a,b,b, missing act:x'')])"
    using call_unauthorized [OF h u] by (simp add: ts msg d)
  have h2: "checkPrivileges ?c2 (op_actions ?c2 ?op2) = Inr ?r2"
    by (simp add: sample_client_def answering_def)
  have u2: "result ?r2 = UNAUTHORIZED" by simp
  have a2: "op_actions ?c2 ?op2 = [''act:dashboard/get'']"
    by (simp add: op_actions_def op_types_def sample_client_def)
  have c2: "call ?c2 ?op2 =
     ([CheckPrivileges [''act:dashboard/get''],
       AuthorizationFailure ''alice'' ''get'' [Some ''dashboard''] None
         (ArgsGet (One (Some ''dashboard'')) (JStr ''7'') (JObj []))],
      Inl (JTypeError ''missing is not iterable''))"
    using call_unauthorized [OF h2 u2] by (simp add: a2 op_types_def default_obj_def)
  from h ts s c2 show ?thesis by simp
qed

subsection \<open>The actions of a bulk call\<close>



subsection \<open>A checker that throws\<close>

text \<open>
  C6, as amended. For every public operation, when the privilege checker throws an error,
  let the value found for \<^verbatim>\<open>body.error\<close> be the property of the error that is literally
  named \<^verbatim>\<open>body.error\<close> where the error has one, and the \<^verbatim>\<open>error\<close> of its \<^verbatim>\<open>body\<close>
  otherwise. When that value is not \<^verbatim>\<open>null\<close>, the call fails with what the factory's
  \<^verbatim>\<open>decorateGeneralError\<close> makes of the thrown error and the \<^verbatim>\<open>reason\<close> of the value
  found: that reason string where there is one, \<^verbatim>\<open>undefined\<close> where the value or its
  reason is missing. Nothing else happens: no audit event, no repository call.
\<close>

theorem checker_error_decorated:
  assumes "checkPrivileges c (op_actions c op) = Inl e"
    and "found = (if has_prop e ''body.error'' then get_prop e ''body.error''
                  else get_prop (get_prop e ''body'') ''error'')"
    and "found \<noteq> JNull"
  shows "fst (call c op) = [CheckPrivileges (op_actions c op)] \<and>
         audit_events (fst (call c op)) = [] \<and>
         repository_calls (fst (call c op)) = [] \<and>
         snd (call c op) = Inl (decorateGeneralError c e (get_prop found ''reason'')) \<and>
         (\<forall>s. get_prop found ''reason'' = JStr s \<longrightarrow>
            snd (call c op) = Inl (decorateGeneralError c e (JStr s))) \<and>
         (found = JUndefined \<or> get_prop found ''reason'' = JUndefined \<longrightarrow>
            snd (call c op) = Inl (decorateGeneralError c e JUndefined)) \<and>
         (\<not> has_prop e ''body.error'' \<longrightarrow>
            snd (call c op) =
              Inl (decorateGeneralError c e
                    (get_prop (get_prop (get_prop e ''body'') ''error'') ''reason'')))"
proof -
  have c: "call c op =
     ([CheckPrivileges (op_actions c op)],
      Inl (decorateGeneralError c e (get_prop found ''reason'')))"
    using call_checker_throws [OF assms(1,2)] assms(3) by simp
  have 1: "fst (call c op) = [CheckPrivileges (op_actions c op)]"
    by (simp only: c fst_conv)
  have 2: "audit_events (fst (call c op)) = []"
    by (simp add: 1 audit_events_def)
  have 3: "repository_calls (fst (call c op)) = []"
    by (simp add: 1)
  have 4: "snd (call c op) = Inl (decorateGeneralError c e (get_prop found ''reason''))"
    by (simp only: c snd_conv)
  have 5: "\<forall>s. get_prop found ''reason'' = JStr s \<longrightarrow>
            snd (call c op) = Inl (decorateGeneralError c e (JStr s))"
    using 4 by simp
  have u: "get_prop JUndefined ''reason'' = JUndefined"
    by simp
  have 6: "found = JUndefined \<or> get_prop found ''reason'' = JUndefined \<longrightarrow>
            snd (call c op) = Inl (decorateGeneralError c e JUndefined)"
    using 4 u by auto
  have 7: "\<not> has_prop e ''body.error'' \<longrightarrow>
            snd (call c op) =
              Inl (decorateGeneralError c e
                    (get_prop (get_prop (get_prop e ''body'') ''error'') ''reason''))"
    using 4 assms(2) by simp
  from 1 2 3 4 5 6 7 show ?thesis by blast
qed

theorem checker_error_decorated_witness:
  "checkPrivileges (sample_client (failing sample_es_error))
     (op_actions (sample_client (failing sample_es_error)) (Get (One (Some ''dashboard'')) (JStr ''7'') JUndefined))
     = Inl sample_es_error \<and>
   \<not> has_prop sample_es_error ''body.error'' \<and>
   get_prop (get_prop sample_es_error ''body'') ''error'' =
     JObj [(''type'', JStr ''x''), (''reason'', JStr ''r'')] \<and>
   call (sample_client (failing sample_es_error)) (Get (One (Some ''dashboard'')) (JStr ''7'') JUndefined) =
     ([CheckPrivileges [''act:dashboard/get'']],
      Inl (JObj [(''general'', sample_es_error), (''reason'', JStr ''r'')])) \<and>
   checkPrivileges (sample_client (failing (JError ''boom'')))
     (op_actions (sample_client (failing (JError ''boom''))) (Find None))
     = Inl (JError ''boom'') \<and>
   \<not> has_prop (JError ''boom'') ''body.error'' \<and>
   get_prop (get_prop (JError ''boom'') ''body'') ''error'' = JUndefined \<and>
   call (sample_client (failing (JError ''boom''))) (Find None) =
     ([CheckPrivileges [''act:undefined/find'']],
      Inl (JObj [(''general'', JError ''boom''), (''reason'', JUndefined)]))"
proof -
  let ?c1 = "sample_client (failing sample_es_error)"
  let ?op1 = "Get (One (Some ''dashboard'')) (JStr ''7'') JUndefined"
  let ?f1 = "JObj [(''type'', JStr ''x''), (''reason'', JStr ''r'')]"
  let ?c2 = "sample_client (failing (JError ''boom''))"
  let ?op2 = "Find None"
  have h1: "checkPrivileges ?c1 (op_actions ?c1 ?op1) = Inl sample_es_error"
    by (simp add: sample_client_def failing_def)
  have h2: "checkPrivileges ?c2 (op_actions ?c2 ?op2) = Inl (JError ''boom'')"
    by (simp add: sample_client_def failing_def)
  have n1: "\<not> has_prop sample_es_error ''body.error''"
    by (simp add: sample_es_error_def)
  have n2: "\<not> has_prop (JError ''boom'') ''body.error''"
    by simp
  have v1: "get_prop (get_prop sample_es_error ''body'') ''error'' = ?f1"
    by (simp add: sample_es_error_def)
  have v2: "get_prop (get_prop (JError ''boom'') ''body'') ''error'' = JUndefined"
    by simp
  have p1: "?f1 = (if has_prop sample_es_error ''body.error''
                   then get_prop sample_es_error ''body.error''
                   else get_prop (get_prop sample_es_error ''body'') ''error'')"
    using n1 v1 by simp
  have p2: "JUndefined = (if has_prop (JError ''boom'') ''body.error''
                   then get_prop (JError ''boom'') ''body.error''
                   else get_prop (get_prop (JError ''boom'') ''body'') ''error'')"
    by simp
  have q1: "?f1 \<noteq> JNull" by simp
  have q2: "JUndefined \<noteq> JNull" by simp
  have a1: "op_actions ?c1 ?op1 = [''act:dashboard/get'']"
    by (simp add: op_actions_def op_types_def sample_client_def)
  have a2: "op_actions ?c2 ?op2 = [''act:undefined/find'']"
    by (simp add: op_actions_def op_types_def sample_client_def)
  have d1: "decorateGeneralError ?c1 e rs = JObj [(''general'', e), (''reason'', rs)]" for e rs
    by (simp add: sample_client_def)
  have d2: "decorateGeneralError ?c2 e rs = JObj [(''general'', e), (''reason'', rs)]" for e rs
    by (simp add: sample_client_def)
  from checker_error_decorated [OF h1 p1 q1] have
    "fst (call ?c1 ?op1) = [CheckPrivileges (op_actions ?c1 ?op1)]"
    "snd (call ?c1 ?op1) = Inl (decorateGeneralError ?c1 sample_es_error (get_prop ?f1 ''reason''))"
    by blast+
  then have c1: "call ?c1 ?op1 = ([CheckPrivileges [''act:dashboard/get'']],
      Inl (JObj [(''general'', sample_es_error), (''reason'', JStr ''r'')]))"
    by (simp add: prod_eq_iff a1 d1)
  from checker_error_decorated [OF h2 p2 q2] have
    "fst (call ?c2 ?op2) = [CheckPrivileges (op_actions ?c2 ?op2)]"
    "snd (call ?c2 ?op2) = Inl (decorateGeneralError ?c2 (JError ''boom'')
       (get_prop JUndefined ''reason''))"
    by blast+
  then have c2: "call ?c2 ?op2 = ([CheckPrivileges [''act:undefined/find'']],
      Inl (JObj [(''general'', JError ''boom''), (''reason'', JUndefined)]))"
    by (simp add: prod_eq_iff a2 d2)
  from h1 h2 n1 n2 v1 v2 c1 c2 show ?thesis by blast
qed

text \<open>
  C6, as the specification states it, reads the reason at the nested \<^verbatim>\<open>body.error.reason\<close>
  only. An error with a property literally named \<^verbatim>\<open>body.error\<close> and no \<^verbatim>\<open>body\<close> has no
  nested reason, and is decorated with the reason of that property all the same; where both
  are there, the property named \<^verbatim>\<open>body.error\<close> wins over the nested one.
\<close>

theorem flat_body_error_reason_wins:
  "get_prop flat_error ''body'' = JUndefined \<and>
   get_prop (get_prop (get_prop flat_error ''body'') ''error'') ''reason'' = JUndefined \<and>
   snd (call (sample_client (failing flat_error)) (Get (One (Some ''dashboard'')) (JStr ''7'') JUndefined)) =
     Inl (JObj [(''general'', flat_error), (''reason'', JStr ''r'')]) \<and>
   snd (call (sample_client (failing flat_error)) (Get (One (Some ''dashboard'')) (JStr ''7'') JUndefined)) \<noteq>
     Inl (JObj [(''general'', flat_error), (''reason'', JUndefined)]) \<and>
   get_prop (get_prop (get_prop flat_and_nested_error ''body'') ''error'') ''reason'' = JStr ''nested'' \<and>
   snd (call (sample_client (failing flat_and_nested_error))
          (Get (One (Some ''dashboard'')) (JStr ''7'') JUndefined)) =
     Inl (JObj [(''general'', flat_and_nested_error), (''reason'', JStr ''flat'')])"
proof -
  let ?op = "Get (One (Some ''dashboard'')) (JStr ''7'') JUndefined"
  let ?c1 = "sample_client (failing flat_error)"
  let ?c2 = "sample_client (failing flat_and_nested_error)"
  have h1: "checkPrivileges ?c1 (op_actions ?c1 ?op) = Inl flat_error"
    by (simp add: sample_client_def failing_def)
  have h2: "checkPrivileges ?c2 (op_actions ?c2 ?op) = Inl flat_and_nested_error"
    by (simp add: sample_client_def failing_def)
  have p1: "JObj [(''reason'', JStr ''r'')] =
      (if has_prop flat_error ''body.error'' then get_prop flat_error ''body.error''
       else get_prop (get_prop flat_error ''body'') ''error'')"
    by (simp add: flat_error_def)
  have p2: "JObj [(''reason'', JStr ''flat'')] =
      (if has_prop flat_and_nested_error ''body.error''
       then get_prop flat_and_nested_error ''body.error''
       else get_prop (get_prop flat_and_nested_error ''body'') ''error'')"
    by (simp add: flat_and_nested_error_def)
  have d1: "decorateGeneralError ?c1 e rs = JObj [(''general'', e), (''reason'', rs)]" for e rs
    by (simp add: sample_client_def)
  have d2: "decorateGeneralError ?c2 e rs = JObj [(''general'', e), (''reason'', rs)]" for e rs
    by (simp add: sample_client_def)
  have s1: "snd (call ?c1 ?op) = Inl (JObj [(''general'', flat_error), (''reason'', JStr ''r'')])"
    using call_checker_throws [OF h1 p1] by (simp add: d1)
  have s2: "snd (call ?c2 ?op) =
      Inl (JObj [(''general'', flat_and_nested_error), (''reason'', JStr ''flat'')])"
    using call_checker_throws [OF h2 p2] by (simp add: d2)
  have b1: "get_prop flat_error ''body'' = JUndefined"
    by (simp add: flat_error_def)
  have b2: "get_prop (get_prop (get_prop flat_and_nested_error ''body'') ''error'') ''reason'' =
      JStr ''nested''"
    by (simp add: flat_and_nested_error_def)
  from s1 s2 b1 b2 show ?thesis by simp
qed

text \<open>
  Where the value found for \<^verbatim>\<open>body.error\<close> is \<^verbatim>\<open>null\<close>, the destructuring in the
  \<^verbatim>\<open>catch\<close> block throws, and the call fails with that \<^verbatim>\<open>TypeError\<close>.
\<close>

lemma null_body_error_type_error:
  "snd (call (sample_client (failing null_error)) (Get (One (Some ''dashboard'')) (JStr ''7'') JUndefined)) =
     Inl (JTypeError ''Cannot destructure property reason'')"
proof -
  let ?op = "Get (One (Some ''dashboard'')) (JStr ''7'') JUndefined"
  let ?c = "sample_client (failing null_error)"
  have h: "checkPrivileges ?c (op_actions ?c ?op) = Inl null_error"
    by (simp add: sample_client_def failing_def)
  have p: "JNull =
      (if has_prop null_error ''body.error'' then get_prop null_error ''body.error''
       else get_prop (get_prop null_error ''body'') ''error'')"
    by (simp add: null_error_def)
  show ?thesis
    using call_checker_throws [OF h p] by simp
qed

subsection \<open>What the chosen repository does comes back as it is\<close>

text \<open>
  C8. For every public operation, when the checker answers AUTHORIZED or LEGACY, the
  outcome of the call is the outcome of the chosen repository's method: the value it
  returns is returned, the error it throws is thrown, neither changed nor wrapped. Method
  by method, it is the outcome of the chosen repository's method of the same name on the
  arguments of the call, defaults filled in.
\<close>

theorem repository_outcome_unchanged:
  assumes "checkPrivileges c (op_actions c op) = Inr r"
    and "result r = AUTHORIZED \<or> result r = LEGACY"
    and "chosen = (if result r = AUTHORIZED then internalRepository c
                   else callWithRequestRepository c)"
  shows "snd (call c op) = apply_call (op_fn op) chosen \<and>
         (\<forall>v. apply_call (op_fn op) chosen = Inr v \<longrightarrow> snd (call c op) = Inr v) \<and>
         (\<forall>e. apply_call (op_fn op) chosen = Inl e \<longrightarrow> snd (call c op) = Inl e) \<and>
         (case op of
            Create t a opts \<Rightarrow>
              snd (call c op) = repo_create chosen t (default_obj a) (default_obj opts)
          | BulkCreate objs opts \<Rightarrow>
              snd (call c op) = repo_bulkCreate chosen objs (default_obj opts)
          | Delete t i opts \<Rightarrow>
              snd (call c op) = repo_delete chosen t i (default_obj opts)
          | Find opts \<Rightarrow>
              snd (call c op) = repo_find chosen (find_defaults opts)
          | BulkGet objs opts \<Rightarrow>
              snd (call c op) =
                repo_bulkGet chosen (objects_default objs) (default_obj opts)
          | Get t i opts \<Rightarrow>
              snd (call c op) = repo_get chosen t i (default_obj opts)
          | Update t i a opts \<Rightarrow>
              snd (call c op) = repo_update chosen t i a (default_obj opts))"
proof -
  have 1: "snd (call c op) = apply_call (op_fn op) chosen"
  proof (cases "result r = AUTHORIZED")
    case True
    from call_authorized [OF assms(1) True] True assms(3) show ?thesis
      by simp
  next
    case False
    with assms(2) have l: "result r = LEGACY" by blast
    from call_legacy [OF assms(1) l] l assms(3) show ?thesis
      by simp
  qed
  have 2: "(case op of
            Create t a opts \<Rightarrow>
              snd (call c op) = repo_create chosen t (default_obj a) (default_obj opts)
          | BulkCreate objs opts \<Rightarrow>
              snd (call c op) = repo_bulkCreate chosen objs (default_obj opts)
          | Delete t i opts \<Rightarrow>
              snd (call c op) = repo_delete chosen t i (default_obj opts)
          | Find opts \<Rightarrow>
              snd (call c op) = repo_find chosen (find_defaults opts)
          | BulkGet objs opts \<Rightarrow>
              snd (call c op) =
                repo_bulkGet chosen (objects_default objs) (default_obj opts)
          | Get t i opts \<Rightarrow>
              snd (call c op) = repo_get chosen t i (default_obj opts)
          | Update t i a opts \<Rightarrow>
              snd (call c op) = repo_update chosen t i a (default_obj opts))"
    using 1 by (cases op) simp_all
  from 1 2 show ?thesis by simp
qed

theorem repository_outcome_unchanged_witness:
  "checkPrivileges (sample_client (answering AUTHORIZED))
     (op_actions (sample_client (answering AUTHORIZED)) (Find None))
     = Inr \<lparr>result = AUTHORIZED, username = ''alice'', missing = None\<rparr> \<and>
   repo_find (sample_repository ''internal'') (FindOptions (One None) (JObj [])) =
     Inr (JObj [(''by'', JStr ''internal''), (''did'', JStr ''find'')]) \<and>
   snd (call (sample_client (answering AUTHORIZED)) (Find None)) =
     Inr (JObj [(''by'', JStr ''internal''), (''did'', JStr ''find'')]) \<and>
   checkPrivileges (sample_client (answering LEGACY))
     (op_actions (sample_client (answering LEGACY)) (Get (One (Some ''dashboard'')) (JStr ''7'') JUndefined))
     = Inr \<lparr>result = LEGACY, username = ''alice'', missing = None\<rparr> \<and>
   repo_get (sample_repository ''callWithRequest'') (One (Some ''dashboard'')) (JStr ''7'') (JObj []) =
     Inl (JError ''callWithRequest: not found'') \<and>
   snd (call (sample_client (answering LEGACY)) (Get (One (Some ''dashboard'')) (JStr ''7'') JUndefined)) =
     Inl (JError ''callWithRequest: not found'')"
proof -
  let ?c1 = "sample_client (answering AUTHORIZED)"
  let ?op1 = "Find None"
  let ?r1 = "\<lparr>result = AUTHORIZED, username = ''alice'', missing = None\<rparr>"
  let ?c2 = "sample_client (answering LEGACY)"
  let ?op2 = "Get (One (Some ''dashboard'')) (JStr ''7'') JUndefined"
  let ?r2 = "\<lparr>result = LEGACY, username = ''alice'', missing = None\<rparr>"
  have h1: "checkPrivileges ?c1 (op_actions ?c1 ?op1) = Inr ?r1"
    by (simp add: sample_client_def answering_def)
  have h2: "checkPrivileges ?c2 (op_actions ?c2 ?op2) = Inr ?r2"
    by (simp add: sample_client_def answering_def)
  have k1: "result ?r1 = AUTHORIZED \<or> result ?r1 = LEGACY" by simp
  have k2: "result ?r2 = AUTHORIZED \<or> result ?r2 = LEGACY" by simp
  have i1: "internalRepository ?c1 =
      (if result ?r1 = AUTHORIZED then internalRepository ?c1 else callWithRequestRepository ?c1)"
    by simp
  have i2: "callWithRequestRepository ?c2 =
      (if result ?r2 = AUTHORIZED then internalRepository ?c2 else callWithRequestRepository ?c2)"
    by simp
  have f: "repo_find (sample_repository ''internal'') (FindOptions (One None) (JObj [])) =
     Inr (JObj [(''by'', JStr ''internal''), (''did'', JStr ''find'')])"
    by (simp add: sample_repository_def)
  have g: "repo_get (sample_repository ''callWithRequest'') (One (Some ''dashboard'')) (JStr ''7'') (JObj []) =
     Inl (JError ''callWithRequest: not found'')"
    by (simp add: sample_repository_def)
  from repository_outcome_unchanged [OF h1 k1 i1] have
    "snd (call ?c1 ?op1) = Inr (JObj [(''by'', JStr ''internal''), (''did'', JStr ''find'')])"
    by (simp add: sample_client_def f)
  moreover from repository_outcome_unchanged [OF h2 k2 i2] have
    "snd (call ?c2 ?op2) = Inl (JError ''callWithRequest: not found'')"
    by (simp add: sample_client_def default_obj_def g)
  ultimately show ?thesis using h1 h2 f g by simp
qed

subsection \<open>One check for each call\<close>

text \<open>
  C7, as amended. For every public call the privilege checker is called exactly once, and
  before anything else. At most one audit event is recorded: exactly one when the checker
  answers AUTHORIZED or UNAUTHORIZED, none when it answers LEGACY or an unrecognised
  result, or throws. At most one repository call is made, and only after the checker has
  answered AUTHORIZED or LEGACY.
\<close>

theorem one_check_at_most_one_audit:
  "checker_calls (fst (call c op)) = [op_actions c op] \<and>
   (\<exists>rest. fst (call c op) = CheckPrivileges (op_actions c op) # rest \<and>
      checker_calls rest = []) \<and>
   length (audit_events (fst (call c op))) \<le> 1 \<and>
   (length (audit_events (fst (call c op))) = 1 \<longleftrightarrow>
      (\<exists>r. checkPrivileges c (op_actions c op) = Inr r \<and>
           (result r = AUTHORIZED \<or> result r = UNAUTHORIZED))) \<and>
   length (repository_calls (fst (call c op))) \<le> 1 \<and>
   (repository_calls (fst (call c op)) \<noteq> [] \<longrightarrow>
      (\<exists>r. checkPrivileges c (op_actions c op) = Inr r \<and>
           (result r = AUTHORIZED \<or> result r = LEGACY)))"
proof (cases c op rule: call_cases)
  case (throws e)
  from call_checker_throws_trace [OF throws] throws show ?thesis
    by (simp add: audit_events_def)
next
  case (authorized r)
  from call_authorized [OF authorized] authorized show ?thesis
    by (simp add: audit_events_def)
next
  case (legacy r)
  from call_legacy [OF legacy] legacy show ?thesis
    by (simp add: audit_events_def)
next
  case (unauthorized r)
  from call_unauthorized [OF unauthorized] unauthorized show ?thesis
    by (simp add: audit_events_def)
next
  case (other r v)
  from call_other [OF other] other show ?thesis
    by (simp add: audit_events_def)
qed

theorem one_check_at_most_one_audit_witness:
  "checkPrivileges (sample_client (answering AUTHORIZED))
     (op_actions (sample_client (answering AUTHORIZED)) (Create (One (Some ''dashboard'')) JUndefined JUndefined))
     = Inr \<lparr>result = AUTHORIZED, username = ''alice'', missing = None\<rparr> \<and>
   repository_calls (fst (call (sample_client (answering AUTHORIZED))
     (Create (One (Some ''dashboard'')) JUndefined JUndefined))) = [Internal] \<and>
   checker_calls (fst (call (sample_client (answering AUTHORIZED))
     (Create (One (Some ''dashboard'')) JUndefined JUndefined))) = [[''act:dashboard/create'']] \<and>
   length (audit_events (fst (call (sample_client (answering AUTHORIZED))
     (Create (One (Some ''dashboard'')) JUndefined JUndefined)))) = 1"
proof -
  let ?c = "sample_client (answering AUTHORIZED)"
  let ?op = "Create (One (Some ''dashboard'')) JUndefined JUndefined"
  let ?r = "\<lparr>result = AUTHORIZED, username = ''alice'', missing = None\<rparr>"
  have h: "checkPrivileges ?c (op_actions ?c ?op) = Inr ?r"
    by (simp add: sample_client_def answering_def)
  have a: "op_actions ?c ?op = [''act:dashboard/create'']"
    by (simp add: op_actions_def op_types_def sample_client_def)
  have rc: "repository_calls (fst (call ?c ?op)) = [Internal]"
    using call_authorized [OF h] by simp
  from h have ex: "\<exists>r. checkPrivileges ?c (op_actions ?c ?op) = Inr r \<and>
           (result r = AUTHORIZED \<or> result r = UNAUTHORIZED)"
    by simp
  from one_check_at_most_one_audit [of ?c ?op] have
    "checker_calls (fst (call ?c ?op)) = [op_actions ?c ?op]"
    "length (audit_events (fst (call ?c ?op))) = 1 \<longleftrightarrow>
      (\<exists>r. checkPrivileges ?c (op_actions ?c ?op) = Inr r \<and>
           (result r = AUTHORIZED \<or> result r = UNAUTHORIZED))"
    by blast+
  with ex have "checker_calls (fst (call ?c ?op)) = [[''act:dashboard/create'']]"
    and "length (audit_events (fst (call ?c ?op))) = 1"
    by (simp_all only: a simp_thms)
  with h rc show ?thesis by blast
qed

text \<open>
  C7, as the specification states it, asks for exactly one audit event in every call. A
  \<^verbatim>\<open>get\<close> that the checker answers with LEGACY records none.
\<close>

theorem legacy_call_records_no_audit_event:
  "checkPrivileges (sample_client (answering LEGACY))
     (op_actions (sample_client (answering LEGACY)) (Get (One (Some ''dashboard'')) (JStr ''7'') JUndefined))
     = Inr \<lparr>result = LEGACY, username = ''alice'', missing = None\<rparr> \<and>
   fst (call (sample_client (answering LEGACY)) (Get (One (Some ''dashboard'')) (JStr ''7'') JUndefined)) =
     [CheckPrivileges [''act:dashboard/get''],
      RepositoryCall CallWithRequest (CallGet (One (Some ''dashboard'')) (JStr ''7'') (JObj []))] \<and>
   audit_events (fst (call (sample_client (answering LEGACY))
     (Get (One (Some ''dashboard'')) (JStr ''7'') JUndefined))) = [] \<and>
   length (audit_events (fst (call (sample_client (answering LEGACY))
     (Get (One (Some ''dashboard'')) (JStr ''7'') JUndefined)))) \<noteq> 1"
proof -
  let ?c = "sample_client (answering LEGACY)"
  let ?op = "Get (One (Some ''dashboard'')) (JStr ''7'') JUndefined"
  let ?r = "\<lparr>result = LEGACY, username = ''alice'', missing = None\<rparr>"
  have h: "checkPrivileges ?c (op_actions ?c ?op) = Inr ?r"
    by (simp add: sample_client_def answering_def)
  have a: "op_actions ?c ?op = [''act:dashboard/get'']"
    by (simp add: op_actions_def op_types_def sample_client_def)
  have "result ?r = LEGACY" by simp
  from call_legacy [OF h this] have
    "fst (call ?c ?op) = [CheckPrivileges [''act:dashboard/get''],
      RepositoryCall CallWithRequest (CallGet (One (Some ''dashboard'')) (JStr ''7'') (JObj []))]"
    by (simp add: a default_obj_def)
  with h show ?thesis
    by (simp add: audit_events_def)
qed

subsection \<open>Calls without a type\<close>

text \<open>
  C9. For \<^verbatim>\<open>find\<close> without a type filter (no options at all, or options whose
  \<^verbatim>\<open>type\<close> is absent) the call runs as a call on the single type \<^verbatim>\<open>undefined\<close>: the
  checker receives exactly one action, the one the registry gives for \<^verbatim>\<open>undefined\<close> and
  \<^verbatim>\<open>find\<close>, and the call then takes the branch of the checker's answer like any other.
\<close>

theorem find_without_type_filter:
  assumes "fo_type (find_defaults opts) = One None"
  shows "op_actions c (Find opts) = [getSavedObjectAction c None ''find''] \<and>
         checker_calls (fst (call c (Find opts))) = [[getSavedObjectAction c None ''find'']] \<and>
         (\<forall>r. checkPrivileges c [getSavedObjectAction c None ''find''] = Inr r \<and>
              result r = AUTHORIZED \<longrightarrow>
            call c (Find opts) =
              ([CheckPrivileges [getSavedObjectAction c None ''find''],
                AuthorizationSuccess (username r) ''find'' [None] (ArgsFind (find_defaults opts)),
                RepositoryCall Internal (CallFind (find_defaults opts))],
               repo_find (internalRepository c) (find_defaults opts))) \<and>
         (\<forall>r. checkPrivileges c [getSavedObjectAction c None ''find''] = Inr r \<and>
              result r = LEGACY \<longrightarrow>
            call c (Find opts) =
              ([CheckPrivileges [getSavedObjectAction c None ''find''],
                RepositoryCall CallWithRequest (CallFind (find_defaults opts))],
               repo_find (callWithRequestRepository c) (find_defaults opts))) \<and>
         (\<forall>r ms. checkPrivileges c [getSavedObjectAction c None ''find''] = Inr r \<and>
              result r = UNAUTHORIZED \<and> missing r = Some ms \<longrightarrow>
            call c (Find opts) =
              ([CheckPrivileges [getSavedObjectAction c None ''find''],
                AuthorizationFailure (username r) ''find'' [None] (Some ms)
                  (ArgsFind (find_defaults opts))],
               Inl (decorateForbiddenError c (JError
                 (''Unable to find , missing '' @ array_join '','' (map Some (sort ms)))))))"
proof -
  have ts: "op_types (Find opts) = [None]"
    using assms by (simp add: op_types_def)
  have a: "op_actions c (Find opts) = [getSavedObjectAction c None ''find'']"
    by (simp add: op_actions_def ts)
  have 1: "checker_calls (fst (call c (Find opts))) = [[getSavedObjectAction c None ''find'']]"
    by (simp only: checker_calls_call a)
  have 2: "call c (Find opts) =
              ([CheckPrivileges [getSavedObjectAction c None ''find''],
                AuthorizationSuccess (username r) ''find'' [None] (ArgsFind (find_defaults opts)),
                RepositoryCall Internal (CallFind (find_defaults opts))],
               repo_find (internalRepository c) (find_defaults opts))"
    if "checkPrivileges c [getSavedObjectAction c None ''find''] = Inr r \<and> result r = AUTHORIZED"
    for r
    using call_authorized [of c "Find opts" r] that by (simp add: a ts)
  have 3: "call c (Find opts) =
              ([CheckPrivileges [getSavedObjectAction c None ''find''],
                RepositoryCall CallWithRequest (CallFind (find_defaults opts))],
               repo_find (callWithRequestRepository c) (find_defaults opts))"
    if "checkPrivileges c [getSavedObjectAction c None ''find''] = Inr r \<and> result r = LEGACY"
    for r
    using call_legacy [of c "Find opts" r] that by (simp add: a ts)
  have m: "forbidden_msg ''find'' [None] ms =
      ''Unable to find , missing '' @ array_join '','' (map Some (sort ms))" for ms
    by (simp add: forbidden_msg_sorted array_sort_def)
  have 4: "call c (Find opts) =
              ([CheckPrivileges [getSavedObjectAction c None ''find''],
                AuthorizationFailure (username r) ''find'' [None] (Some ms)
                  (ArgsFind (find_defaults opts))],
               Inl (decorateForbiddenError c (JError
                 (''Unable to find , missing '' @ array_join '','' (map Some (sort ms))))))"
    if "checkPrivileges c [getSavedObjectAction c None ''find''] = Inr r \<and>
        result r = UNAUTHORIZED \<and> missing r = Some ms"
    for r ms
    using call_unauthorized [of c "Find opts" r] that by (simp add: a ts m)
  from a 1 2 3 4 show ?thesis by blast
qed

theorem find_without_type_filter_witness:
  "fo_type (find_defaults None) = One None \<and>
   checkPrivileges (sample_client (answering AUTHORIZED)) [''act:undefined/find''] =
     Inr \<lparr>result = AUTHORIZED, username = ''alice'', missing = None\<rparr> \<and>
   call (sample_client (answering AUTHORIZED)) (Find None) =
     ([CheckPrivileges [''act:undefined/find''],
       AuthorizationSuccess ''alice'' ''find'' [None] (ArgsFind (FindOptions (One None) (JObj []))),
       RepositoryCall Internal (CallFind (FindOptions (One None) (JObj [])))],
      Inr (JObj [(''by'', JStr ''internal''), (''did'', JStr ''find'')])) \<and>
   fo_type (find_defaults (Some (FindOptions (One None) (JObj [(''search'', JStr ''x'')])))) = One None \<and>
   checkPrivileges (sample_client (denying [''act:undefined/find''])) [''act:undefined/find''] =
     Inr \<lparr>result = UNAUTHORIZED, username = ''alice'', missing = Some [''act:undefined/find'']\<rparr> \<and>
   snd (call (sample_client (denying [''act:undefined/find'']))
          (Find (Some (FindOptions (One None) (JObj [(''search'', JStr ''x'')]))))) =
     Inl (JObj [(''forbidden'', JError ''Unable to find , missing act:undefined/find'')])"
proof -
  let ?c1 = "sample_client (answering AUTHORIZED)"
  let ?r1 = "\<lparr>result = AUTHORIZED, username = ''alice'', missing = None\<rparr>"
  let ?c2 = "sample_client (denying [''act:undefined/find''])"
  let ?o2 = "Some (FindOptions (One None) (JObj [(''search'', JStr ''x'')]))"
  let ?r2 = "\<lparr>result = UNAUTHORIZED, username = ''alice'', missing = Some [''act:undefined/find'']\<rparr>"
  have g1: "getSavedObjectAction ?c1 None ''find'' = ''act:undefined/find''"
    by (simp add: sample_client_def)
  have g2: "getSavedObjectAction ?c2 None ''find'' = ''act:undefined/find''"
    by (simp add: sample_client_def)
  have f1: "fo_type (find_defaults None) = One None" by simp
  have f2: "fo_type (find_defaults ?o2) = One None" by simp
  have h1: "checkPrivileges ?c1 [''act:undefined/find''] = Inr ?r1"
    by (simp add: sample_client_def answering_def)
  have h2: "checkPrivileges ?c2 [''act:undefined/find''] = Inr ?r2"
    by (simp add: sample_client_def denying_def)
  have k1: "checkPrivileges ?c1 [getSavedObjectAction ?c1 None ''find''] = Inr ?r1 \<and>
        result ?r1 = AUTHORIZED"
    using h1 by (simp only: g1) simp
  have k2: "checkPrivileges ?c2 [getSavedObjectAction ?c2 None ''find''] = Inr ?r2 \<and>
        result ?r2 = UNAUTHORIZED \<and> missing ?r2 = Some [''act:undefined/find'']"
    using h2 by (simp only: g2) simp
  from find_without_type_filter [OF f1, of ?c1] k1 have
    "call ?c1 (Find None) =
       ([CheckPrivileges [getSavedObjectAction ?c1 None ''find''],
         AuthorizationSuccess (username ?r1) ''find'' [None] (ArgsFind (find_defaults None)),
         RepositoryCall Internal (CallFind (find_defaults None))],
        repo_find (internalRepository ?c1) (find_defaults None))"
    by blast
  then have c1: "call ?c1 (Find None) =
     ([CheckPrivileges [''act:undefined/find''],
       AuthorizationSuccess ''alice'' ''find'' [None] (ArgsFind (FindOptions (One None) (JObj []))),
       RepositoryCall Internal (CallFind (FindOptions (One None) (JObj [])))],
      Inr (JObj [(''by'', JStr ''internal''), (''did'', JStr ''find'')]))"
    by (simp add: g1) (simp add: sample_client_def sample_repository_def)
  from find_without_type_filter [OF f2, of ?c2] k2 have
    "call ?c2 (Find ?o2) =
       ([CheckPrivileges [getSavedObjectAction ?c2 None ''find''],
         AuthorizationFailure (username ?r2) ''find'' [None] (Some [''act:undefined/find''])
           (ArgsFind (find_defaults ?o2))],
        Inl (decorateForbiddenError ?c2 (JError
          (''Unable to find , missing '' @
             array_join '','' (map Some (sort [''act:undefined/find'']))))))"
    by blast
  then have c2: "snd (call ?c2 (Find ?o2)) =
     Inl (JObj [(''forbidden'', JError ''Unable to find , missing act:undefined/find'')])"
    by (simp add: sample_client_def)
  from f1 f2 h1 h2 c1 c2 show ?thesis by blast
qed

subsection \<open>Bulk calls on no objects\<close>

text \<open>
  C10. A bulk call on an empty collection (\<^verbatim>\<open>bulkGet\<close> without objects, which defaults
  to the empty array, \<^verbatim>\<open>bulkGet\<close> or \<^verbatim>\<open>bulkCreate\<close> on the empty array) is not cut
  short: the checker is called exactly once, with no actions, and the call then takes the
  branch of the checker's answer like any other, also when the checker throws.
\<close>

theorem empty_bulk_still_checked:
  assumes "op = BulkGet None opts \<or> op = BulkGet (Some []) opts \<or> op = BulkCreate [] opts"
  shows "op_actions c op = [] \<and>
         checker_calls (fst (call c op)) = [[]] \<and>
         (\<forall>r. checkPrivileges c [] = Inr r \<and> result r = AUTHORIZED \<longrightarrow>
            call c op =
              ([CheckPrivileges [],
                AuthorizationSuccess (username r) (op_action op) [] (op_args op),
                RepositoryCall Internal (op_fn op)],
               apply_call (op_fn op) (internalRepository c))) \<and>
         (\<forall>r. checkPrivileges c [] = Inr r \<and> result r = LEGACY \<longrightarrow>
            call c op =
              ([CheckPrivileges [], RepositoryCall CallWithRequest (op_fn op)],
               apply_call (op_fn op) (callWithRequestRepository c))) \<and>
         (\<forall>r ms. checkPrivileges c [] = Inr r \<and> result r = UNAUTHORIZED \<and>
              missing r = Some ms \<longrightarrow>
            call c op =
              ([CheckPrivileges [],
                AuthorizationFailure (username r) (op_action op) [] (Some ms) (op_args op)],
               Inl (decorateForbiddenError c (JError
                 (''Unable to '' @ op_action op @ '' , missing '' @
                    array_join '','' (map Some (sort ms))))))) \<and>
         (\<forall>e found. checkPrivileges c [] = Inl e \<and>
              found = (if has_prop e ''body.error'' then get_prop e ''body.error''
                       else get_prop (get_prop e ''body'') ''error'') \<longrightarrow>
            call c op =
              ([CheckPrivileges []],
               (if found = JNull then Inl (JTypeError ''Cannot destructure property reason'')
                else Inl (decorateGeneralError c e (get_prop found ''reason'')))))"
proof -
  have ts: "op_types op = []"
    using assms by (auto simp: op_types_def uniq_def)
  have a: "op_actions c op = []"
    by (simp add: op_actions_def ts)
  have 1: "checker_calls (fst (call c op)) = [[]]"
    by (simp only: checker_calls_call a)
  have 2: "call c op =
              ([CheckPrivileges [],
                AuthorizationSuccess (username r) (op_action op) [] (op_args op),
                RepositoryCall Internal (op_fn op)],
               apply_call (op_fn op) (internalRepository c))"
    if "checkPrivileges c [] = Inr r \<and> result r = AUTHORIZED" for r
    using call_authorized [of c op r] that by (simp add: a ts)
  have 3: "call c op =
              ([CheckPrivileges [], RepositoryCall CallWithRequest (op_fn op)],
               apply_call (op_fn op) (callWithRequestRepository c))"
    if "checkPrivileges c [] = Inr r \<and> result r = LEGACY" for r
    using call_legacy [of c op r] that by (simp add: a ts)
  have m: "forbidden_msg k [] ms =
      ''Unable to '' @ k @ '' , missing '' @ array_join '','' (map Some (sort ms))" for k ms
    by (simp add: forbidden_msg_sorted array_sort_def)
  have 4: "call c op =
              ([CheckPrivileges [],
                AuthorizationFailure (username r) (op_action op) [] (Some ms) (op_args op)],
               Inl (decorateForbiddenError c (JError
                 (''Unable to '' @ op_action op @ '' , missing '' @
                    array_join '','' (map Some (sort ms))))))"
    if "checkPrivileges c [] = Inr r \<and> result r = UNAUTHORIZED \<and> missing r = Some ms" for r ms
    using call_unauthorized [of c op r] that by (simp add: a ts m)
  have 5: "call c op =
              ([CheckPrivileges []],
               (if found = JNull then Inl (JTypeError ''Cannot destructure property reason'')
                else Inl (decorateGeneralError c e (get_prop found ''reason''))))"
    if "checkPrivileges c [] = Inl e \<and>
        found = (if has_prop e ''body.error'' then get_prop e ''body.error''
                 else get_prop (get_prop e ''body'') ''error'')" for e found
    using call_checker_throws [of c op e found] that by (simp add: a)
  from a 1 2 3 4 5 show ?thesis by blast
qed

theorem empty_bulk_still_checked_witness:
  "checkPrivileges (sample_client (answering AUTHORIZED)) [] =
     Inr \<lparr>result = AUTHORIZED, username = ''alice'', missing = None\<rparr> \<and>
   call (sample_client (answering AUTHORIZED)) (BulkGet None JUndefined) =
     ([CheckPrivileges [],
       AuthorizationSuccess ''alice'' ''bulk_get'' [] (ArgsBulkGet [] (JObj [])),
       RepositoryCall Internal (CallBulkGet [] (JObj []))],
      Inr (JObj [(''by'', JStr ''internal''), (''did'', JStr ''bulkGet'')])) \<and>
   checkPrivileges (sample_client (denying [])) [] =
     Inr \<lparr>result = UNAUTHORIZED, username = ''alice'', missing = Some []\<rparr> \<and>
   call (sample_client (denying [])) (BulkCreate [] JUndefined) =
     ([CheckPrivileges [],
       AuthorizationFailure ''alice'' ''bulk_create'' [] (Some []) (ArgsBulkCreate [] (JObj []))],
      Inl (JObj [(''forbidden'', JError ''Unable to bulk_create , missing '')]))"
proof -
  let ?c1 = "sample_client (answering AUTHORIZED)"
  let ?op1 = "BulkGet None JUndefined"
  let ?r1 = "\<lparr>result = AUTHORIZED, username = ''alice'', missing = None\<rparr>"
  let ?c2 = "sample_client (denying [])"
  let ?op2 = "BulkCreate [] JUndefined"
  let ?r2 = "\<lparr>result = UNAUTHORIZED, username = ''alice'', missing = Some []\<rparr>"
  have e1: "?op1 = BulkGet None JUndefined \<or> ?op1 = BulkGet (Some []) JUndefined \<or>
            ?op1 = BulkCreate [] JUndefined"
    by simp
  have e2: "?op2 = BulkGet None JUndefined \<or> ?op2 = BulkGet (Some []) JUndefined \<or>
            ?op2 = BulkCreate [] JUndefined"
    by simp
  have h1: "checkPrivileges ?c1 [] = Inr ?r1"
    by (simp add: sample_client_def answering_def)
  have h2: "checkPrivileges ?c2 [] = Inr ?r2"
    by (simp add: sample_client_def denying_def)
  have k1: "checkPrivileges ?c1 [] = Inr ?r1 \<and> result ?r1 = AUTHORIZED"
    using h1 by simp
  have k2: "checkPrivileges ?c2 [] = Inr ?r2 \<and> result ?r2 = UNAUTHORIZED \<and> missing ?r2 = Some []"
    using h2 by simp
  from empty_bulk_still_checked [OF e1, of ?c1] k1 have
    "call ?c1 ?op1 =
       ([CheckPrivileges [],
         AuthorizationSuccess (username ?r1) (op_action ?op1) [] (op_args ?op1),
         RepositoryCall Internal (op_fn ?op1)],
        apply_call (op_fn ?op1) (internalRepository ?c1))"
    by blast
  then have c1: "call ?c1 ?op1 =
     ([CheckPrivileges [],
       AuthorizationSuccess ''alice'' ''bulk_get'' [] (ArgsBulkGet [] (JObj [])),
       RepositoryCall Internal (CallBulkGet [] (JObj []))],
      Inr (JObj [(''by'', JStr ''internal''), (''did'', JStr ''bulkGet'')]))"
    by (simp add: default_obj_def sample_client_def sample_repository_def)
  from empty_bulk_still_checked [OF e2, of ?c2] k2 have
    "call ?c2 ?op2 =
       ([CheckPrivileges [],
         AuthorizationFailure (username ?r2) (op_action ?op2) [] (Some []) (op_args ?op2)],
        Inl (decorateForbiddenError ?c2 (JError
          (''Unable to '' @ op_action ?op2 @ '' , missing '' @
             array_join '','' (map Some (sort ([]::string list)))))))"
    by blast
  then have c2: "call ?c2 ?op2 =
     ([CheckPrivileges [],
       AuthorizationFailure ''alice'' ''bulk_create'' [] (Some []) (ArgsBulkCreate [] (JObj []))],
      Inl (JObj [(''forbidden'', JError ''Unable to bulk_create , missing '')]))"
    by (simp add: default_obj_def sample_client_def)
  from h1 h2 c1 c2 show ?thesis by blast
qed

end
